theory Spec2Isabelle
  imports Main
begin

section \<open>Values, dictionaries and errors\<close>

text \<open>
  The archive engine of \<^verbatim>\<open>core.py\<close> is dynamically typed: the fields of an
  \<^verbatim>\<open>Item\<close> hold whatever object the caller passed. The values that the
  structured-value codec has to carry are nested mappings, text, integers and the
  absent value; \<open>pyval\<close> is that universe. A Python \<^verbatim>\<open>dict\<close> keeps its keys in
  insertion order, so it is an association list; a well-formed one has distinct keys.
\<close>

datatype pyval = PNone | PInt int | PStr string | PDict "(string \<times> pyval) list"

type_synonym 'v pydict = "(string \<times> 'v) list"

text \<open>\<^verbatim>\<open>d[k] = v\<close>: an existing key keeps its position, a new key goes last.\<close>

fun dict_set :: "string \<Rightarrow> 'v \<Rightarrow> 'v pydict \<Rightarrow> 'v pydict" where
  "dict_set k v [] = [(k, v)]"
| "dict_set k v (p # ps) = (if fst p = k then (k, v) # ps else p # dict_set k v ps)"

text \<open>\<^verbatim>\<open>del d[k]\<close> on a key that is present (the callers raise KeyError otherwise).\<close>

definition dict_del :: "string \<Rightarrow> 'v pydict \<Rightarrow> 'v pydict" where
  "dict_del k ps = filter (\<lambda>p. fst p \<noteq> k) ps"

definition dict_keys :: "'v pydict \<Rightarrow> string list" where
  "dict_keys ps = map fst ps"

definition dict_get :: "'v pydict \<Rightarrow> string \<Rightarrow> 'v option" where
  "dict_get ps k = map_of ps k"

definition dict_has :: "'v pydict \<Rightarrow> string \<Rightarrow> bool" where
  "dict_has ps k = (k \<in> set (dict_keys ps))"

definition wf_dict :: "'v pydict \<Rightarrow> bool" where
  "wf_dict ps = distinct (dict_keys ps)"

text \<open>
  Modelled from the spec: the base class \<^verbatim>\<open>class_utils.HierarchizedObject\<close> of the
  four node classes is not among the source files. By the specification it gives every
  node its ownership link: the constructor receives the owning archive handle and the
  node keeps the reference as \<^verbatim>\<open>_parent\<close> (the fields \<open>i_parent\<close>, \<open>s_parent\<close>,
  \<open>d_parent\<close> and \<open>n_parent\<close> of the records below).

  The nodes read \<^verbatim>\<open>path\<close>, \<^verbatim>\<open>readable\<close> and \<^verbatim>\<open>writable\<close> through that reference.
  \<^verbatim>\<open>BDMFile.__init__\<close> assigns these three attributes once and nothing in the source
  assigns them again, so the reference is modelled by the identity of the handle
  together with the three attributes. \<^verbatim>\<open>BDMFile\<close> defines no \<^verbatim>\<open>__eq__\<close>: two links are
  the same link exactly when they have the same identity \<open>oid\<close>.
\<close>

record owner =
  oid :: nat
  opath :: string
  oreadable :: bool
  owritable :: bool

text \<open>
  The exceptions of \<^verbatim>\<open>exceptions.py\<close> keep their arguments; the built-in ones are
  plain constructors. \<open>InvalidParent expected given path\<close>,
  \<open>VersionError self_version file_version path\<close>, \<open>InvalidFile path reason\<close>.
\<close>

datatype error =
    UnsupportedOperation
  | InvalidParent owner owner string
  | VersionError int pyval string
  | InvalidFile string string
  | ValueError
  | TypeError
  | KeyError
  | AttributeError
  | FileNotFoundError
  | FileExistsError
  | UnpicklingError
  | BadZipFile
  | OSError
  | KeyboardInterrupt
  | SystemExit

text \<open>
  \<^verbatim>\<open>KeyboardInterrupt\<close> and \<^verbatim>\<open>SystemExit\<close> derive from the built-in \<^verbatim>\<open>BaseException\<close>
  only; every other error above is an \<^verbatim>\<open>Exception\<close> (the classes of \<^verbatim>\<open>exceptions.py\<close>
  derive from \<^verbatim>\<open>Exception\<close> through a class of their own that is also called
  \<^verbatim>\<open>BaseException\<close>). A clause \<^verbatim>\<open>except Exception\<close> catches exactly the errors
  for which \<open>is_Exception\<close> holds.
\<close>

fun is_Exception :: "error \<Rightarrow> bool" where
  "is_Exception KeyboardInterrupt = False"
| "is_Exception SystemExit = False"
| "is_Exception e = True"

text \<open>
  A mutating method returns \<^verbatim>\<open>None\<close> or raises; its model returns the exception raised
  (if any) together with the object as the call leaves it.
\<close>

type_synonym 's upd = "error option \<times> 's"

definition VERSION :: int where
  "VERSION = 2"

text \<open>\<^verbatim>\<open>sub in s\<close> for two strings.\<close>

fun starts_with :: "string \<Rightarrow> string \<Rightarrow> bool" where
  "starts_with [] s = True"
| "starts_with (c # cs) [] = False"
| "starts_with (c # cs) (d # ds) = (c = d \<and> starts_with cs ds)"

fun str_contains :: "string \<Rightarrow> string \<Rightarrow> bool" where
  "str_contains sub [] = (sub = [])"
| "str_contains sub (c # cs) = (starts_with sub (c # cs) \<or> str_contains sub cs)"

text \<open>\<^verbatim>\<open>name in obj\<close> for a string \<^verbatim>\<open>name\<close>: key membership in a dict, substring test in
  a string, TypeError for \<^verbatim>\<open>None\<close> and for an integer.\<close>

fun py_contains :: "pyval \<Rightarrow> string \<Rightarrow> error + bool" where
  "py_contains (PDict kvs) name = Inr (dict_has kvs name)"
| "py_contains (PStr s) name = Inr (str_contains name s)"
| "py_contains PNone name = Inl TypeError"
| "py_contains (PInt i) name = Inl TypeError"

section \<open>Item\<close>

record Item =
  i_parent :: owner
  title :: pyval
  content :: pyval
  image_id :: pyval
  level :: pyval
  data :: pyval

text \<open>
  \<^verbatim>\<open>Item.__init__(self, parent, title, content, level, data=None, image_id=None, image=None)\<close>,
  the arguments in the order of the signature. The resource id is assigned before the
  test that refuses an item without one.
\<close>

definition Item_init ::
  "owner \<Rightarrow> pyval \<Rightarrow> pyval \<Rightarrow> pyval \<Rightarrow> pyval \<Rightarrow> pyval \<Rightarrow> pyval \<Rightarrow> error + Item" where
  "Item_init parent title' content' level' data' image_id' image' =
     (if image_id' = PNone \<and> image' = PNone then Inl ValueError
      else Inr \<lparr>i_parent = parent, title = title', content = content',
                image_id = (if image_id' \<noteq> PNone then image_id' else image'),
                level = level', data = data'\<rparr>)"

definition Item_to_dict :: "Item \<Rightarrow> pyval pydict" where
  "Item_to_dict it =
     (let d = [(''title'', title it), (''content'', content it),
               (''image_id'', image_id it), (''level'', level it)]
      in if data it \<noteq> PNone then dict_set ''data'' (data it) d else d)"

text \<open>\<^verbatim>\<open>self.data[name] = value\<close> on whatever \<^verbatim>\<open>self.data\<close> holds.\<close>

fun py_setitem :: "pyval \<Rightarrow> string \<Rightarrow> pyval \<Rightarrow> error + pyval" where
  "py_setitem (PDict kvs) name v = Inr (PDict (dict_set name v kvs))"
| "py_setitem obj name v = Inl TypeError"

definition Item_add_data :: "Item \<Rightarrow> string \<Rightarrow> pyval \<Rightarrow> Item upd" where
  "Item_add_data it name v =
     (if \<not> owritable (i_parent it) then (Some UnsupportedOperation, it)
      else let it1 = (if data it = PNone then it\<lparr>data := PDict []\<rparr> else it)
           in case py_setitem (data it1) name v of
                Inl e \<Rightarrow> (Some e, it1)
              | Inr d \<Rightarrow> (None, it1\<lparr>data := d\<rparr>))"

text \<open>
  \<^verbatim>\<open>remove_data\<close> tests \<^verbatim>\<open>name not in self.data\<close> before it tests
  \<^verbatim>\<open>self.data is None\<close>, so an item without metadata raises TypeError at the first
  test. \<^verbatim>\<open>del\<close> on a string raises TypeError.
\<close>

definition Item_remove_data :: "Item \<Rightarrow> string \<Rightarrow> Item upd" where
  "Item_remove_data it name =
     (if \<not> owritable (i_parent it) then (Some UnsupportedOperation, it)
      else case py_contains (data it) name of
             Inl e \<Rightarrow> (Some e, it)
           | Inr False \<Rightarrow> (Some ValueError, it)
           | Inr True \<Rightarrow>
               (if data it = PNone then (Some ValueError, it)
                else case data it of
                       PDict kvs \<Rightarrow>
                         (let kvs' = dict_del name kvs
                          in (None, it\<lparr>data := (if length kvs' = 0 then PNone else PDict kvs')\<rparr>))
                     | _ \<Rightarrow> (Some TypeError, it)))"

text \<open>A sequence of metadata calls on one item; it stops at the first call that raises.\<close>

datatype data_op = AddData string pyval | RemoveData string

fun apply_data_op :: "Item \<Rightarrow> data_op \<Rightarrow> Item upd" where
  "apply_data_op it (AddData name v) = Item_add_data it name v"
| "apply_data_op it (RemoveData name) = Item_remove_data it name"

fun run_data_ops :: "Item \<Rightarrow> data_op list \<Rightarrow> Item upd" where
  "run_data_ops it [] = (None, it)"
| "run_data_ops it (x # xs) =
     (case apply_data_op it x of
        (Some e, it') \<Rightarrow> (Some e, it')
      | (None, it') \<Rightarrow> run_data_ops it' xs)"

text \<open>The metadata is absent or a non-empty mapping.\<close>

definition metadata_ok :: "Item \<Rightarrow> bool" where
  "metadata_ok it = (case data it of PNone \<Rightarrow> True | PDict kvs \<Rightarrow> kvs \<noteq> [] | _ \<Rightarrow> False)"

section \<open>Section\<close>

record Section =
  s_parent :: owner
  s_type :: pyval
  description :: pyval
  s_content :: "Item pydict"

text \<open>
  \<^verbatim>\<open>Item(parent, **item)\<close>: the keys of the mapping are bound to the parameters by
  name. A key that names no parameter (or names \<^verbatim>\<open>parent\<close> again), a missing
  \<^verbatim>\<open>title\<close>, \<^verbatim>\<open>content\<close> or \<^verbatim>\<open>level\<close>, and an argument that is no mapping are each a
  TypeError; an absent optional parameter takes its default \<^verbatim>\<open>None\<close>.
\<close>

definition kwarg :: "pyval pydict \<Rightarrow> string \<Rightarrow> pyval" where
  "kwarg kw k = (case dict_get kw k of None \<Rightarrow> PNone | Some v \<Rightarrow> v)"

fun Item_from_kwargs :: "owner \<Rightarrow> pyval \<Rightarrow> error + Item" where
  "Item_from_kwargs parent (PDict kw) =
     (if \<not> list_all (\<lambda>k. k \<in> set [''title'', ''content'', ''level'', ''data'', ''image_id'', ''image''])
            (dict_keys kw)
      then Inl TypeError
      else if \<not> (dict_has kw ''title'' \<and> dict_has kw ''content'' \<and> dict_has kw ''level'')
      then Inl TypeError
      else Item_init parent (kwarg kw ''title'') (kwarg kw ''content'') (kwarg kw ''level'')
             (kwarg kw ''data'') (kwarg kw ''image_id'') (kwarg kw ''image''))"
| "Item_from_kwargs parent v = Inl TypeError"

text \<open>
  \<^verbatim>\<open>for key in obj: value = obj[key]; target[key] = build(value)\<close>, the loop of
  \<^verbatim>\<open>Section.__init__\<close> and \<^verbatim>\<open>Data.__init__\<close>. \<open>build_loop\<close> runs it over the keys of a
  dict; \<open>build_all\<close> adds what iteration does on the other values: the empty string has
  nothing to iterate, a non-empty string fails at \<^verbatim>\<open>obj[key]\<close> and \<^verbatim>\<open>None\<close> and
  integers are not iterable (TypeError each).
\<close>

fun build_loop ::
  "(pyval \<Rightarrow> error + 'n) \<Rightarrow> pyval pydict \<Rightarrow> string list \<Rightarrow> 'n pydict \<Rightarrow> error + 'n pydict" where
  "build_loop build src [] acc = Inr acc"
| "build_loop build src (k # ks) acc =
     (case dict_get src k of
        None \<Rightarrow> Inl KeyError
      | Some v \<Rightarrow>
          (case build v of
             Inl e \<Rightarrow> Inl e
           | Inr n \<Rightarrow> build_loop build src ks (dict_set k n acc)))"

fun build_all :: "(pyval \<Rightarrow> error + 'n) \<Rightarrow> pyval \<Rightarrow> error + 'n pydict" where
  "build_all build (PDict kvs) = build_loop build kvs (dict_keys kvs) []"
| "build_all build (PStr s) = (if s = [] then Inr [] else Inl TypeError)"
| "build_all build v = Inl TypeError"

definition Section_init :: "owner \<Rightarrow> pyval \<Rightarrow> pyval \<Rightarrow> pyval \<Rightarrow> error + Section" where
  "Section_init parent type' description' content' =
     (case build_all (Item_from_kwargs parent) content' of
        Inl e \<Rightarrow> Inl e
      | Inr items \<Rightarrow> Inr \<lparr>s_parent = parent, s_type = type', description = description',
                          s_content = items\<rparr>)"

definition Section_contains :: "Section \<Rightarrow> string \<Rightarrow> error + bool" where
  "Section_contains s key =
     (if \<not> oreadable (s_parent s) then Inl UnsupportedOperation
      else Inr (dict_has (s_content s) key))"

definition Section_getitem :: "Section \<Rightarrow> string \<Rightarrow> error + Item" where
  "Section_getitem s key =
     (if \<not> oreadable (s_parent s) then Inl UnsupportedOperation
      else case dict_get (s_content s) key of None \<Rightarrow> Inl KeyError | Some it \<Rightarrow> Inr it)"

definition Section_delitem :: "Section \<Rightarrow> string \<Rightarrow> Section upd" where
  "Section_delitem s key =
     (if \<not> owritable (s_parent s) then (Some UnsupportedOperation, s)
      else if \<not> dict_has (s_content s) key then (Some KeyError, s)
      else (None, s\<lparr>s_content := dict_del key (s_content s)\<rparr>))"

definition Section_setitem :: "Section \<Rightarrow> string \<Rightarrow> Item \<Rightarrow> Section upd" where
  "Section_setitem s key v =
     (if \<not> owritable (s_parent s) then (Some UnsupportedOperation, s)
      else if oid (i_parent v) \<noteq> oid (s_parent s)
      then (Some (InvalidParent (s_parent s) (i_parent v) (opath (s_parent s))), s)
      else (None, s\<lparr>s_content := dict_set key v (s_content s)\<rparr>))"

text \<open>
  \<^verbatim>\<open>add_item(self, title, content, image_id, level, name=None, data=None)\<close> ends in
  \<^verbatim>\<open>self[name] = Item(self._parent, title, content, image_id, level, data)\<close>: the five
  values are passed by position, so they land on the constructor's parameters
  \<^verbatim>\<open>title, content, level, data, image_id\<close> in that order, and \<^verbatim>\<open>image\<close> keeps its
  default. \<open>fresh\<close> is the value of \<^verbatim>\<open>uuid1().hex\<close>.
\<close>

definition Section_add_item ::
  "Section \<Rightarrow> string \<Rightarrow> pyval \<Rightarrow> pyval \<Rightarrow> pyval \<Rightarrow> pyval \<Rightarrow> string option \<Rightarrow> pyval \<Rightarrow> Section upd" where
  "Section_add_item s fresh title' content' image_id' level' name' data' =
     (let key = (case name' of None \<Rightarrow> fresh | Some n \<Rightarrow> n)
      in case Item_init (s_parent s) title' content' image_id' level' data' PNone of
           Inl e \<Rightarrow> (Some e, s)
         | Inr it \<Rightarrow> Section_setitem s key it)"

definition Section_remove_item :: "Section \<Rightarrow> string \<Rightarrow> Section upd" where
  "Section_remove_item s name' =
     (case Section_contains s name' of
        Inl e \<Rightarrow> (Some e, s)
      | Inr False \<Rightarrow> (Some ValueError, s)
      | Inr True \<Rightarrow> Section_delitem s name')"

text \<open>\<^verbatim>\<open>for item_key in self._content: data["content"][item_key] = ...to_dict()\<close>.\<close>

fun export_loop :: "('n \<Rightarrow> pyval) \<Rightarrow> 'n pydict \<Rightarrow> string list \<Rightarrow> pyval pydict \<Rightarrow> pyval pydict" where
  "export_loop f src [] acc = acc"
| "export_loop f src (k # ks) acc =
     (case dict_get src k of
        None \<Rightarrow> export_loop f src ks acc
      | Some n \<Rightarrow> export_loop f src ks (dict_set k (f n) acc))"

definition Section_to_dict :: "Section \<Rightarrow> pyval pydict" where
  "Section_to_dict s =
     [(''type'', s_type s), (''description'', description s),
      (''content'', PDict (export_loop (\<lambda>it. PDict (Item_to_dict it)) (s_content s)
                             (dict_keys (s_content s)) []))]"

section \<open>Data (the document)\<close>

record Data =
  d_parent :: owner
  sections :: "Section pydict"

text \<open>\<^verbatim>\<open>Section(parent, **section)\<close>: all three parameters are required.\<close>

fun Section_from_kwargs :: "owner \<Rightarrow> pyval \<Rightarrow> error + Section" where
  "Section_from_kwargs parent (PDict kw) =
     (if \<not> list_all (\<lambda>k. k \<in> set [''type'', ''description'', ''content'']) (dict_keys kw)
      then Inl TypeError
      else if \<not> (dict_has kw ''type'' \<and> dict_has kw ''description'' \<and> dict_has kw ''content'')
      then Inl TypeError
      else Section_init parent (kwarg kw ''type'') (kwarg kw ''description'') (kwarg kw ''content''))"
| "Section_from_kwargs parent v = Inl TypeError"

definition Data_init :: "owner \<Rightarrow> pyval \<Rightarrow> error + Data" where
  "Data_init parent sections' =
     (case build_all (Section_from_kwargs parent) sections' of
        Inl e \<Rightarrow> Inl e
      | Inr secs \<Rightarrow> Inr \<lparr>d_parent = parent, sections = secs\<rparr>)"

definition Data_contains :: "Data \<Rightarrow> string \<Rightarrow> bool" where
  "Data_contains d key = dict_has (sections d) key"

definition Data_getitem :: "Data \<Rightarrow> string \<Rightarrow> error + Section" where
  "Data_getitem d key =
     (if \<not> oreadable (d_parent d) then Inl UnsupportedOperation
      else case dict_get (sections d) key of None \<Rightarrow> Inl KeyError | Some s \<Rightarrow> Inr s)"

definition Data_delitem :: "Data \<Rightarrow> string \<Rightarrow> Data upd" where
  "Data_delitem d key =
     (if \<not> owritable (d_parent d) then (Some UnsupportedOperation, d)
      else if \<not> dict_has (sections d) key then (Some KeyError, d)
      else (None, d\<lparr>sections := dict_del key (sections d)\<rparr>))"

definition Data_setitem :: "Data \<Rightarrow> string \<Rightarrow> Section \<Rightarrow> Data upd" where
  "Data_setitem d key v =
     (if \<not> owritable (d_parent d) then (Some UnsupportedOperation, d)
      else if oid (s_parent v) \<noteq> oid (d_parent d)
      then (Some (InvalidParent (d_parent d) (s_parent v) (opath (d_parent d))), d)
      else (None, d\<lparr>sections := dict_set key v (sections d)\<rparr>))"

definition Data_add_section :: "Data \<Rightarrow> string \<Rightarrow> pyval \<Rightarrow> pyval \<Rightarrow> Data upd" where
  "Data_add_section d name' type' description' =
     (case Section_init (d_parent d) type' description' (PDict []) of
        Inl e \<Rightarrow> (Some e, d)
      | Inr s \<Rightarrow> Data_setitem d name' s)"

section \<open>Byte strings and the two external codecs\<close>

text \<open>
  The pickle codec and the zip container codec are libraries outside the repository.
  Byte strings are kept symbolic up to these two encodings: \<open>Pickled v\<close> is the pickle
  of \<open>v\<close>, \<open>Zip closed entries\<close> is a container with the named entries written so far,
  \<open>closed\<close> telling whether its central directory has been written (only then does
  \<^verbatim>\<open>is_zipfile\<close> recognise it), and \<open>Raw\<close> is any other byte string.
\<close>

datatype bytes = Raw "nat list" | Pickled pyval | Zip bool "(string \<times> bytes) list"

definition pickle_dumps :: "pyval \<Rightarrow> bytes" where
  "pickle_dumps v = Pickled v"

fun pickle_loads :: "bytes \<Rightarrow> error + pyval" where
  "pickle_loads (Pickled v) = Inr v"
| "pickle_loads b = Inl UnpicklingError"

text \<open>\<^verbatim>\<open>x > n\<close> for an integer \<^verbatim>\<open>n\<close>: \<^verbatim>\<open>None\<close>, strings and dicts do not compare with it.\<close>

fun py_gt_int :: "pyval \<Rightarrow> int \<Rightarrow> error + bool" where
  "py_gt_int (PInt i) n = Inr (i > n)"
| "py_gt_int v n = Inl TypeError"

definition Data_export_dict :: "Data \<Rightarrow> pyval pydict" where
  "Data_export_dict d =
     [(''version'', PInt VERSION),
      (''sections'', PDict (export_loop (\<lambda>s. PDict (Section_to_dict s)) (sections d)
                              (dict_keys (sections d)) []))]"

definition Data_export_data :: "Data \<Rightarrow> bytes" where
  "Data_export_data d = pickle_dumps (PDict (Data_export_dict d))"

definition Data_import_data :: "bytes \<Rightarrow> owner \<Rightarrow> error + Data" where
  "Data_import_data b parent =
     (case pickle_loads b of
        Inl e \<Rightarrow> Inl e
      | Inr (PDict kvs) \<Rightarrow>
          (case dict_get kvs ''version'' of
             None \<Rightarrow> Inl KeyError
           | Some ver \<Rightarrow>
               (case py_gt_int ver VERSION of
                  Inl e \<Rightarrow> Inl e
                | Inr True \<Rightarrow> Inl (VersionError VERSION ver (opath parent))
                | Inr False \<Rightarrow>
                    (case dict_get (dict_del ''version'' kvs) ''sections'' of
                       None \<Rightarrow> Inl KeyError
                     | Some secs \<Rightarrow> Data_init parent secs)))
      | Inr v \<Rightarrow> Inl (InvalidFile (opath parent) ''Invalid 'data' file''))"

section \<open>Paths\<close>

text \<open>
  Paths are those of a POSIX system. A \<^verbatim>\<open>pathlib.Path\<close> keeps a root (nothing, one
  slash, or exactly two slashes) and the components of the text between slashes that
  are neither empty nor a single dot; \<^verbatim>\<open>..\<close> stays. Its text is the root followed by
  the components joined with slashes, and a dot when that is empty. \<open>Path_of s\<close> is the
  text of \<^verbatim>\<open>Path(s)\<close>.
\<close>

fun split_on :: "char \<Rightarrow> string \<Rightarrow> string list" where
  "split_on c [] = [[]]"
| "split_on c (x # xs) =
     (if x = c then [] # split_on c xs
      else (case split_on c xs of [] \<Rightarrow> [[x]] | w # ws \<Rightarrow> (x # w) # ws))"

fun join_with :: "string \<Rightarrow> string list \<Rightarrow> string" where
  "join_with sep [] = []"
| "join_with sep [w] = w"
| "join_with sep (w # v # ws) = w @ sep @ join_with sep (v # ws)"

definition path_root :: "string \<Rightarrow> string" where
  "path_root s =
     (if \<not> starts_with ''/'' s then []
      else if starts_with ''//'' s \<and> \<not> starts_with ''///'' s then ''//''
      else ''/'')"

definition path_parts :: "string \<Rightarrow> string list" where
  "path_parts s = filter (\<lambda>c. c \<noteq> [] \<and> c \<noteq> ''.'') (split_on CHR ''/'' s)"

definition path_format :: "string \<Rightarrow> string list \<Rightarrow> string" where
  "path_format root ps = (let t = root @ join_with ''/'' ps in if t = [] then ''.'' else t)"

definition Path_of :: "string \<Rightarrow> string" where
  "Path_of s = path_format (path_root s) (path_parts s)"

text \<open>\<^verbatim>\<open>p.name\<close> is the last component (empty when there is none) and \<^verbatim>\<open>p.parent\<close>
  drops it (a path without components is its own parent).\<close>

definition path_name :: "string \<Rightarrow> string" where
  "path_name p = (case path_parts p of [] \<Rightarrow> [] | ps \<Rightarrow> last ps)"

definition path_parent :: "string \<Rightarrow> string" where
  "path_parent p =
     (if path_parts p = [] then Path_of p
      else path_format (path_root p) (butlast (path_parts p)))"

text \<open>\<^verbatim>\<open>d / f\<close>: an absolute right operand replaces the left one, otherwise its
  components follow those of the left operand.\<close>

definition joinpath :: "string \<Rightarrow> string \<Rightarrow> string" where
  "joinpath d f =
     (if starts_with ''/'' f then Path_of f
      else path_format (path_root d) (path_parts d @ path_parts f))"

text \<open>\<^verbatim>\<open>path.parent / (path.name + ".old")\<close>, the name under which \<^verbatim>\<open>save\<close> moves the
  old file aside.\<close>

definition old_marker :: "string \<Rightarrow> string" where
  "old_marker p = joinpath (path_parent p) (path_name p @ ''.old'')"

text \<open>
  A path argument arrives as text or as a \<^verbatim>\<open>Path\<close> object: \<open>AsStr s\<close> is the text \<open>s\<close>
  and \<open>AsPath s\<close> is the object \<^verbatim>\<open>Path(s)\<close>. \<^verbatim>\<open>ensure_class(obj, Path)\<close> of \<^verbatim>\<open>utils.py\<close>
  gives a \<^verbatim>\<open>Path\<close> for both, and \<^verbatim>\<open>str(obj)\<close> (also inside an f-string) gives the
  text as it is and the normalised text of a \<^verbatim>\<open>Path\<close>.
\<close>

datatype path_like = AsStr string | AsPath string

fun ensure_Path :: "path_like \<Rightarrow> string" where
  "ensure_Path (AsStr s) = Path_of s"
| "ensure_Path (AsPath s) = Path_of s"

fun py_str :: "path_like \<Rightarrow> string" where
  "py_str (AsStr s) = s"
| "py_str (AsPath s) = Path_of s"

text \<open>
  \<^verbatim>\<open>os.path.normpath\<close>, which \<^verbatim>\<open>ZipFile.write\<close> applies to the name of an entry: empty
  and single-dot components go, and \<^verbatim>\<open>..\<close> takes the component before it away (at the
  start of a relative path it stays, at the start of an absolute one it goes). Leading
  slashes are then stripped from the entry name.
\<close>

fun norm_comps :: "bool \<Rightarrow> string list \<Rightarrow> string list \<Rightarrow> string list" where
  "norm_comps rooted [] acc = rev acc"
| "norm_comps rooted (c # cs) acc =
     (if c = [] \<or> c = ''.'' then norm_comps rooted cs acc
      else if c \<noteq> ''..'' then norm_comps rooted cs (c # acc)
      else (case acc of
              [] \<Rightarrow> if rooted then norm_comps rooted cs acc else norm_comps rooted cs (c # acc)
            | a # as \<Rightarrow> if a = ''..'' then norm_comps rooted cs (c # acc)
                        else norm_comps rooted cs as))"

definition normpath :: "string \<Rightarrow> string" where
  "normpath s =
     (let t = path_root s @
              join_with ''/'' (norm_comps (path_root s \<noteq> []) (split_on CHR ''/'' s) [])
      in if t = [] then ''.'' else t)"

definition arcname_of :: "string \<Rightarrow> string" where
  "arcname_of a = dropWhile (\<lambda>c. c = CHR ''/'') (normpath a)"

section \<open>Info (the resource index)\<close>

record Info =
  n_parent :: owner
  name :: pyval
  files :: "path_like pydict"

text \<open>
  The values of \<^verbatim>\<open>files\<close> are \<^verbatim>\<open>Path\<close> objects when the index was built by
  \<^verbatim>\<open>Info.__init__\<close> (\<^verbatim>\<open>Path(file)\<close>, which accepts text only) and plain text when
  \<^verbatim>\<open>add_file\<close> stored them. The export writes \<^verbatim>\<open>str(...)\<close> of each.
\<close>

fun to_Path :: "pyval \<Rightarrow> error + path_like" where
  "to_Path (PStr s) = Inr (AsPath s)"
| "to_Path v = Inl TypeError"

definition Info_init :: "owner \<Rightarrow> pyval \<Rightarrow> pyval \<Rightarrow> error + Info" where
  "Info_init parent name' files' =
     (case build_all to_Path files' of
        Inl e \<Rightarrow> Inl e
      | Inr fls \<Rightarrow> Inr \<lparr>n_parent = parent, name = name', files = fls\<rparr>)"

definition Info_export_dict :: "Info \<Rightarrow> pyval pydict" where
  "Info_export_dict i =
     (let d = dict_set ''name'' (name i)
                [(''version'', PInt VERSION), (''files'', PDict []), (''name'', PStr ''NoName'')]
      in dict_set ''files'' (PDict (export_loop (\<lambda>f. PStr (py_str f)) (files i)
                                     (dict_keys (files i)) [])) d)"

definition Info_export_data :: "Info \<Rightarrow> bytes" where
  "Info_export_data i = pickle_dumps (PDict (Info_export_dict i))"

definition Info_import_data :: "bytes \<Rightarrow> owner \<Rightarrow> error + Info" where
  "Info_import_data b parent =
     (case pickle_loads b of
        Inl e \<Rightarrow> Inl e
      | Inr (PDict kvs) \<Rightarrow>
          (case dict_get kvs ''version'' of
             None \<Rightarrow> Inl KeyError
           | Some ver \<Rightarrow>
               (case py_gt_int ver VERSION of
                  Inl e \<Rightarrow> Inl e
                | Inr True \<Rightarrow> Inl (VersionError VERSION ver (opath parent))
                | Inr False \<Rightarrow>
                    (let kvs' = dict_del ''version'' kvs
                     in case dict_get kvs' ''name'' of
                          None \<Rightarrow> Inl KeyError
                        | Some nm \<Rightarrow>
                            (case dict_get kvs' ''files'' of
                               None \<Rightarrow> Inl KeyError
                             | Some fls \<Rightarrow> Info_init parent nm fls))))
      | Inr v \<Rightarrow> Inl (InvalidFile (opath parent) ''Invalid 'info' file''))"

section \<open>The filesystem and the container\<close>

text \<open>
  The filesystem maps the text of a path to the bytes of the file there. Directories
  and links are not modelled: a file can be written wherever its path says, and two
  different texts name two different files.
\<close>

type_synonym fs = "string \<Rightarrow> bytes option"

definition fs_rename :: "string \<Rightarrow> string \<Rightarrow> fs \<Rightarrow> fs" where
  "fs_rename a b s = (s(b := s a))(a := None)"

definition fs_remove :: "string \<Rightarrow> fs \<Rightarrow> fs" where
  "fs_remove a s = s(a := None)"

text \<open>
  \<^verbatim>\<open>ZipFile(path, "w")\<close> creates the file at once, empty; \<^verbatim>\<open>writestr\<close> and \<^verbatim>\<open>write\<close>
  append an entry to it; \<^verbatim>\<open>close\<close> writes the central directory. The writer holds the
  open file: when the path no longer leads to that file, the path is not affected.
\<close>

definition zip_create :: "string \<Rightarrow> fs \<Rightarrow> fs" where
  "zip_create p s = s(p \<mapsto> Zip False [])"

definition zip_append :: "string \<Rightarrow> string \<Rightarrow> bytes \<Rightarrow> fs \<Rightarrow> fs" where
  "zip_append p nm b s =
     (case s p of Some (Zip False es) \<Rightarrow> s(p \<mapsto> Zip False (es @ [(nm, b)])) | _ \<Rightarrow> s)"

definition zip_close :: "string \<Rightarrow> fs \<Rightarrow> fs" where
  "zip_close p s = (case s p of Some (Zip False es) \<Rightarrow> s(p \<mapsto> Zip True es) | _ \<Rightarrow> s)"

text \<open>\<^verbatim>\<open>ZipFile(path)\<close> for reading, and \<^verbatim>\<open>read(name)\<close>, which takes the entry written
  last under that name.\<close>

definition zip_open :: "fs \<Rightarrow> string \<Rightarrow> error + (string \<times> bytes) list" where
  "zip_open s p =
     (case s p of
        None \<Rightarrow> Inl FileNotFoundError
      | Some (Zip True es) \<Rightarrow> Inr es
      | Some b \<Rightarrow> Inl BadZipFile)"

definition zip_read :: "(string \<times> bytes) list \<Rightarrow> string \<Rightarrow> error + bytes" where
  "zip_read es nm = (case map_of (rev es) nm of None \<Rightarrow> Inl KeyError | Some b \<Rightarrow> Inr b)"

definition quoted :: "string \<Rightarrow> string" where
  "quoted s = CHR 0x27 # s @ [CHR 0x27]"

text \<open>\<^verbatim>\<open>_check_validity\<close>: a zip file that has both required entries, \<^verbatim>\<open>info\<close> looked
  for first.\<close>

definition check_validity :: "fs \<Rightarrow> string \<Rightarrow> error option" where
  "check_validity s p =
     (case s p of
        Some (Zip True es) \<Rightarrow>
          (if ''info'' \<notin> set (map fst es) then Some (InvalidFile p (''Missing '' @ quoted ''info''))
           else if ''data'' \<notin> set (map fst es) then Some (InvalidFile p (''Missing '' @ quoted ''data''))
           else None)
      | _ \<Rightarrow> Some (InvalidFile p ''Not a zip file''))"

definition valid_archive :: "bytes \<Rightarrow> bool" where
  "valid_archive b =
     (case b of Zip True es \<Rightarrow> ''info'' \<in> set (map fst es) \<and> ''data'' \<in> set (map fst es)
      | _ \<Rightarrow> False)"

section \<open>BDMFile (the archive handle)\<close>

record BDMFile =
  ident :: nat
  path :: string
  mode :: string
  readable :: bool
  writable :: bool
  info :: Info
  bdm_data :: Data
  internal_root_dir :: "string option"
  internal_files_dir :: "string option"

text \<open>The link that the nodes of a handle hold to it.\<close>

definition owner_of :: "BDMFile \<Rightarrow> owner" where
  "owner_of h = \<lparr>oid = ident h, opath = path h, oreadable = readable h, owritable = writable h\<rparr>"

text \<open>The attributes as \<^verbatim>\<open>__init__\<close> sets them from the mode (lines 507 to 517): a
  handle has a staging directory exactly when it is writable.\<close>

definition opened :: "BDMFile \<Rightarrow> bool" where
  "opened h =
     (mode h \<in> set [''w'', ''r'', ''r+'']
      \<and> readable h = (CHR ''r'' \<in> set (mode h))
      \<and> writable h = (mode h \<in> set [''w'', ''r+''])
      \<and> (internal_files_dir h \<noteq> None) = writable h)"

definition write_file :: "BDMFile \<Rightarrow> fs \<Rightarrow> string \<Rightarrow> bytes \<Rightarrow> fs upd" where
  "write_file h s file_id b =
     (if \<not> writable h then (Some UnsupportedOperation, s)
      else case internal_files_dir h of
             None \<Rightarrow> (Some AttributeError, s)
           | Some dir \<Rightarrow>
               (case dict_get (files (info h)) file_id of
                  None \<Rightarrow> (Some KeyError, s)
                | Some f \<Rightarrow> (None, s(joinpath dir (py_str f) \<mapsto> b))))"

text \<open>\<open>fresh\<close> is the value of \<^verbatim>\<open>uuid1().hex\<close>. The extension is what follows the last
  dot of the name of the source. The id is registered, with the internal name as plain
  text, before the source is read and the staged copy written.\<close>

definition add_file ::
  "BDMFile \<Rightarrow> fs \<Rightarrow> string \<Rightarrow> path_like \<Rightarrow> string \<Rightarrow> string option \<Rightarrow> (BDMFile \<times> fs) upd" where
  "add_file h s fresh p file_id internal_name =
     (let pth = ensure_Path p
      in if s pth = None then (Some FileNotFoundError, h, s)
         else if dict_has (files (info h)) file_id then (Some FileExistsError, h, s)
         else if \<not> writable h then (Some UnsupportedOperation, h, s)
         else
           (let nm = path_name pth;
                ext = (if CHR ''.'' \<in> set nm then ''.'' @ last (split_on CHR ''.'' nm) else []);
                iname = (case internal_name of None \<Rightarrow> fresh @ ext | Some n \<Rightarrow> n);
                h1 = h\<lparr>info := (info h)\<lparr>files :=
                                   dict_set file_id (AsStr iname) (files (info h))\<rparr>\<rparr>
            in case s pth of
                 None \<Rightarrow> (Some FileNotFoundError, h1, s)
               | Some b \<Rightarrow> (case write_file h1 s file_id b of (r, s1) \<Rightarrow> (r, h1, s1))))"

text \<open>
  \<^verbatim>\<open>read_file\<close>: the staged copy when the mode is \<^verbatim>\<open>r+\<close>, the container entry when
  the handle is readable otherwise. In that branch the container is opened before the
  id is looked up, and the entry is looked up under the name \<^verbatim>\<open>files/\<close> followed by the
  text of the internal name, as it is.
\<close>

definition read_file :: "BDMFile \<Rightarrow> fs \<Rightarrow> string \<Rightarrow> error + bytes" where
  "read_file h s file_id =
     (if mode h = ''r+'' then
        (case internal_files_dir h of
           None \<Rightarrow> Inl AttributeError
         | Some dir \<Rightarrow>
             (case dict_get (files (info h)) file_id of
                None \<Rightarrow> Inl KeyError
              | Some f \<Rightarrow>
                  (case s (joinpath dir (py_str f)) of
                     None \<Rightarrow> Inl FileNotFoundError
                   | Some b \<Rightarrow> Inr b)))
      else if readable h then
        (case zip_open s (path h) of
           Inl e \<Rightarrow> Inl e
         | Inr es \<Rightarrow>
             (case dict_get (files (info h)) file_id of
                None \<Rightarrow> Inl KeyError
              | Some f \<Rightarrow> zip_read es (''files/'' @ py_str f)))
      else Inl UnsupportedOperation)"

text \<open>\<^verbatim>\<open>close\<close> removes the staging tree of a writable handle.\<close>

definition close :: "BDMFile \<Rightarrow> fs \<Rightarrow> fs upd" where
  "close h s =
     (if writable h then
        (case internal_root_dir h of
           None \<Rightarrow> (Some AttributeError, s)
         | Some root \<Rightarrow> (None, (\<lambda>q. if starts_with (root @ ''/'') q then None else s q)))
      else (None, s))"

text \<open>
  \<^verbatim>\<open>_extract_files\<close>: the name list without the first \<^verbatim>\<open>info\<close> and the first
  \<^verbatim>\<open>data\<close> is extracted below the staging root (\<^verbatim>\<open>list.remove\<close> raises ValueError
  for a name that is not there). \<^verbatim>\<open>extractall\<close> drops the empty, single-dot and
  double-dot components of an entry name, joins the rest to the root with
  \<^verbatim>\<open>os.path.join\<close> and normalises. An entry whose name ends in a slash is a directory
  and leaves no file; a name without any component left cannot be written (OSError).
\<close>

definition os_join :: "string \<Rightarrow> string \<Rightarrow> string" where
  "os_join d f =
     (if starts_with ''/'' f then f
      else if d = [] \<or> last d = CHR ''/'' then d @ f
      else d @ ''/'' @ f)"

definition extract_target :: "string \<Rightarrow> string \<Rightarrow> string" where
  "extract_target root n =
     normpath (os_join root
       (join_with ''/'' (filter (\<lambda>c. c \<noteq> [] \<and> c \<noteq> ''.'' \<and> c \<noteq> ''..'')
                         (split_on CHR ''/'' n))))"

fun extract_all :: "string \<Rightarrow> (string \<times> bytes) list \<Rightarrow> string list \<Rightarrow> fs \<Rightarrow> fs upd" where
  "extract_all root es [] s = (None, s)"
| "extract_all root es (n # ns) s =
     (case map_of (rev es) n of
        None \<Rightarrow> (Some KeyError, s)
      | Some b \<Rightarrow>
          if n \<noteq> [] \<and> last n = CHR ''/'' then extract_all root es ns s
          else if extract_target root n = normpath root then (Some OSError, s)
          else extract_all root es ns (s(extract_target root n \<mapsto> b)))"

definition extract_files :: "string \<Rightarrow> string \<Rightarrow> fs \<Rightarrow> fs upd" where
  "extract_files root p s =
     (case zip_open s p of
        Inl e \<Rightarrow> (Some e, s)
      | Inr es \<Rightarrow>
          (let nl = map fst es
           in if ''info'' \<notin> set nl \<or> ''data'' \<notin> set (remove1 ''info'' nl) then (Some ValueError, s)
              else extract_all root es (remove1 ''data'' (remove1 ''info'' nl)) s))"

text \<open>
  \<^verbatim>\<open>BDMFile(path, mode)\<close>. \<open>i\<close> is the identity of the new object, \<open>tmp\<close> the
  temporary-files root \<^verbatim>\<open>TEMPDIR\<close> and \<open>fresh\<close> the value of \<^verbatim>\<open>uuid1().hex\<close> that names
  the staging directory. The filesystem is returned as the call leaves it, also when
  it raises.
\<close>

definition BDMFile_init ::
  "nat \<Rightarrow> string \<Rightarrow> string \<Rightarrow> path_like \<Rightarrow> string \<Rightarrow> fs \<Rightarrow> (error + BDMFile) \<times> fs" where
  "BDMFile_init i tmp fresh p m s =
     (let pth = ensure_Path p
      in if m \<notin> set [''w'', ''r'', ''r+''] then (Inl ValueError, s)
         else
           (let rd = (CHR ''r'' \<in> set m);
                wr = (m \<in> set [''w'', ''r+'']);
                self = \<lparr>oid = i, opath = pth, oreadable = rd, owritable = wr\<rparr>;
                exists = (s pth \<noteq> None);
                root = joinpath tmp fresh;
                rootd = (if wr then Some root else None);
                filesd = (if wr then Some (joinpath root ''files'') else None)
            in case (if exists then check_validity s pth else None) of
                 Some e \<Rightarrow> (Inl e, s)
               | None \<Rightarrow>
                   if \<not> exists \<and> m = ''r'' then (Inl FileNotFoundError, s)
                   else
                     (case (if wr \<and> exists then extract_files root pth s else (None, s)) of
                        (Some e, s1) \<Rightarrow> (Inl e, s1)
                      | (None, s1) \<Rightarrow>
                          if \<not> exists then
                            (case Info_init self (PStr ''NoName'') (PDict []) of
                               Inl e \<Rightarrow> (Inl e, s1)
                             | Inr nfo \<Rightarrow>
                                 (case Data_init self (PDict []) of
                                    Inl e \<Rightarrow> (Inl e, s1)
                                  | Inr d \<Rightarrow>
                                      (Inr \<lparr>ident = i, path = pth, mode = m, readable = rd,
                                            writable = wr, info = nfo, bdm_data = d,
                                            internal_root_dir = rootd,
                                            internal_files_dir = filesd\<rparr>, s1)))
                          else
                            (case zip_open s1 pth of
                               Inl e \<Rightarrow> (Inl e, s1)
                             | Inr es \<Rightarrow>
                                 (case zip_read es ''data'' of
                                    Inl e \<Rightarrow> (Inl e, s1)
                                  | Inr db \<Rightarrow>
                                      (case Data_import_data db self of
                                         Inl e \<Rightarrow> (Inl e, s1)
                                       | Inr d \<Rightarrow>
                                           (case zip_read es ''info'' of
                                              Inl e \<Rightarrow> (Inl e, s1)
                                            | Inr ib \<Rightarrow>
                                                (case Info_import_data ib self of
                                                   Inl e \<Rightarrow> (Inl e, s1)
                                                 | Inr nfo \<Rightarrow>
                                                     (Inr \<lparr>ident = i, path = pth, mode = m,
                                                           readable = rd, writable = wr,
                                                           info = nfo, bdm_data = d,
                                                           internal_root_dir = rootd,
                                                           internal_files_dir = filesd\<rparr>,
                                                      s1)))))))))"

section \<open>save\<close>

text \<open>
  \<^verbatim>\<open>save\<close> changes the filesystem in several steps, and what a path holds between two
  steps can be observed from outside. A \<open>world\<close> is the filesystem now together with
  the states it has gone through, latest first; \<open>effect\<close> performs one filesystem
  operation and \<open>observed\<close> lists the states in the order they occurred.
\<close>

record world =
  now :: fs
  past :: "fs list"

definition effect :: "(fs \<Rightarrow> fs) \<Rightarrow> world \<Rightarrow> world" where
  "effect f w = \<lparr>now = f (now w), past = now w # past w\<rparr>"

definition observed :: "world \<Rightarrow> fs list" where
  "observed w = rev (now w # past w)"

text \<open>
  The statements of \<^verbatim>\<open>save\<close> that may fail for a reason outside the program (a full
  disk, a permission, an object that does not pickle, an interrupt from the keyboard):
  the rename that moves the old file aside, the statements of the \<^verbatim>\<open>try\<close> block, and
  the removal and the rename of the handler. \<open>flt st = Some e\<close> makes statement \<open>st\<close>
  raise \<open>e\<close> before it has any effect. A staged resource file that is missing makes
  \<^verbatim>\<open>zip_file.write\<close> raise FileNotFoundError without any injection. \<open>CloseZip\<close> is
  the closing of the writer, which is no statement of \<^verbatim>\<open>save\<close> (see \<open>writer_reclaimed\<close>).
\<close>

datatype save_step =
    RenameAside
  | OpenZip | ExportData | WriteData | ExportInfo | WriteInfo | WriteRes string | RemoveOld
  | HandlerRemove | HandlerRename
  | CloseZip

type_synonym faults = "save_step \<Rightarrow> error option"

text \<open>
  The loop over the registered resources: \<^verbatim>\<open>zip_file.write(temp_path, arcname)\<close> reads
  the staged file \<^verbatim>\<open>_internal_files_dir / file\<close> and stores it under the normalised
  form of the name \<^verbatim>\<open>files/\<close> followed by the text of \<^verbatim>\<open>file\<close>.
\<close>

fun write_resources :: "faults \<Rightarrow> BDMFile \<Rightarrow> string \<Rightarrow> string list \<Rightarrow> world \<Rightarrow> world upd" where
  "write_resources flt h target [] w = (None, w)"
| "write_resources flt h target (file_id # ids) w =
     (case dict_get (files (info h)) file_id of
        None \<Rightarrow> (Some KeyError, w)
      | Some file \<Rightarrow>
          (case internal_files_dir h of
             None \<Rightarrow> (Some AttributeError, w)
           | Some dir \<Rightarrow>
               (case flt (WriteRes file_id) of
                  Some e \<Rightarrow> (Some e, w)
                | None \<Rightarrow>
                    (case now w (joinpath dir (py_str file)) of
                       None \<Rightarrow> (Some FileNotFoundError, w)
                     | Some b \<Rightarrow>
                         write_resources flt h target ids
                           (effect (zip_append target (arcname_of (''files/'' @ py_str file)) b)
                              w)))))"

definition save_try :: "faults \<Rightarrow> BDMFile \<Rightarrow> string \<Rightarrow> string option \<Rightarrow> world \<Rightarrow> world upd" where
  "save_try flt h target old_file w =
     (case flt OpenZip of
        Some e \<Rightarrow> (Some e, w)
      | None \<Rightarrow>
          (let w1 = effect (zip_create target) w
           in case flt ExportData of
                Some e \<Rightarrow> (Some e, w1)
              | None \<Rightarrow>
                  (case flt WriteData of
                     Some e \<Rightarrow> (Some e, w1)
                   | None \<Rightarrow>
                       (let w2 = effect (zip_append target ''data'' (Data_export_data (bdm_data h))) w1
                        in case flt ExportInfo of
                             Some e \<Rightarrow> (Some e, w2)
                           | None \<Rightarrow>
                               (case flt WriteInfo of
                                  Some e \<Rightarrow> (Some e, w2)
                                | None \<Rightarrow>
                                    (let w3 = effect (zip_append target ''info''
                                                        (Info_export_data (info h))) w2
                                     in case write_resources flt h target
                                               (dict_keys (files (info h))) w3 of
                                          (Some e, w4) \<Rightarrow> (Some e, w4)
                                        | (None, w4) \<Rightarrow>
                                            (case old_file of
                                               None \<Rightarrow> (None, w4)
                                             | Some old \<Rightarrow>
                                                 (case flt RemoveOld of
                                                    Some e \<Rightarrow> (Some e, w4)
                                                  | None \<Rightarrow>
                                                      (None, effect (fs_remove old) w4)))))))))"

text \<open>
  The handler \<^verbatim>\<open>except Exception as err\<close>: it removes the target if the path exists,
  moves the old file back if there was one, and raises \<open>err\<close> again. An error raised by
  one of its own statements leaves the handler at once and is the error of the call.
\<close>

definition save_handler :: "faults \<Rightarrow> string \<Rightarrow> string option \<Rightarrow> error \<Rightarrow> world \<Rightarrow> world upd" where
  "save_handler flt target old_file err w1 =
     (case (if now w1 target \<noteq> None then flt HandlerRemove else None) of
        Some e \<Rightarrow> (Some e, w1)
      | None \<Rightarrow>
          (let w2 = (if now w1 target \<noteq> None then effect (fs_remove target) w1 else w1)
           in case old_file of
                None \<Rightarrow> (Some err, w2)
              | Some old \<Rightarrow>
                  (case flt HandlerRename of
                     Some e \<Rightarrow> (Some e, w2)
                   | None \<Rightarrow>
                       if now w2 old = None then (Some FileNotFoundError, w2)
                       else (Some err, effect (fs_rename old target) w2))))"

text \<open>
  \<^verbatim>\<open>save(self, path=None)\<close>. A \<^verbatim>\<open>path\<close> given as text stays text (the result of
  \<^verbatim>\<open>ensure_class\<close> is dropped), and \<^verbatim>\<open>path.exists()\<close> then raises AttributeError. The
  old file goes to the sibling \<^verbatim>\<open>name.old\<close> before the \<^verbatim>\<open>try\<close> block. An error of the
  block that is an \<^verbatim>\<open>Exception\<close> goes to the handler; any other error leaves \<^verbatim>\<open>save\<close>
  as the block left things.

  \<^verbatim>\<open>save\<close> never calls \<^verbatim>\<open>zip_file.close()\<close>, so a call that returns normally ends with
  the removal of the old file, the container still without its central directory.
\<close>

definition save_w :: "faults \<Rightarrow> BDMFile \<Rightarrow> path_like option \<Rightarrow> world \<Rightarrow> world upd" where
  "save_w flt h p w =
     (if \<not> writable h then (Some UnsupportedOperation, w)
      else case p of
             Some (AsStr t) \<Rightarrow> (Some AttributeError, w)
           | _ \<Rightarrow>
               (let target = (case p of None \<Rightarrow> path h | Some q \<Rightarrow> ensure_Path q);
                    exists = (now w target \<noteq> None)
                in case (if exists then flt RenameAside else None) of
                     Some e \<Rightarrow> (Some e, w)
                   | None \<Rightarrow>
                       (let old_file = (if exists then Some (old_marker target) else None);
                            w0 = (if exists then effect (fs_rename target (old_marker target)) w
                                  else w)
                        in case save_try flt h target old_file w0 of
                             (None, w1) \<Rightarrow> (None, w1)
                           | (Some err, w1) \<Rightarrow>
                               if is_Exception err then save_handler flt target old_file err w1
                               else (Some err, w1))))"

text \<open>
  The central directory of the new container is written when the interpreter reclaims
  the writer object (\<^verbatim>\<open>ZipFile.__del__\<close> calls \<^verbatim>\<open>close\<close>), some time after the last
  statement of \<^verbatim>\<open>save\<close>. An error in it is reported on the error stream and dropped,
  so the event has no outcome, only its effect on the file.
\<close>

definition writer_reclaimed :: "faults \<Rightarrow> string \<Rightarrow> fs \<Rightarrow> fs" where
  "writer_reclaimed flt target s = (case flt CloseZip of Some e \<Rightarrow> s | None \<Rightarrow> zip_close target s)"

definition save :: "faults \<Rightarrow> BDMFile \<Rightarrow> path_like option \<Rightarrow> fs \<Rightarrow> fs upd" where
  "save flt h p s = (case save_w flt h p \<lparr>now = s, past = []\<rparr> of (r, w) \<Rightarrow> (r, now w))"

definition save_observed :: "faults \<Rightarrow> BDMFile \<Rightarrow> path_like option \<Rightarrow> fs \<Rightarrow> fs list" where
  "save_observed flt h p s = observed (snd (save_w flt h p \<lparr>now = s, past = []\<rparr>))"

definition no_faults :: faults where
  "no_faults = (\<lambda>st. None)"

section \<open>Notions used to state the properties\<close>

text \<open>
  A node rebuilt by an import hangs under the handle given to the import. \<open>reparent\<close>
  replaces the ownership links of a tree and nothing else: keys, their order and all
  other fields stay.
\<close>

definition reparent_item :: "owner \<Rightarrow> Item \<Rightarrow> Item" where
  "reparent_item p it = it\<lparr>i_parent := p\<rparr>"

definition reparent_section :: "owner \<Rightarrow> Section \<Rightarrow> Section" where
  "reparent_section p s =
     s\<lparr>s_parent := p, s_content := map (\<lambda>(k, it). (k, reparent_item p it)) (s_content s)\<rparr>"

definition reparent_data :: "owner \<Rightarrow> Data \<Rightarrow> Data" where
  "reparent_data p d =
     d\<lparr>d_parent := p, sections := map (\<lambda>(k, s). (k, reparent_section p s)) (sections d)\<rparr>"

text \<open>
  The index rebuilt by an import hangs under the importing handle as well, and each of
  its internal names is the \<^verbatim>\<open>Path\<close> made from the exported text.
\<close>

definition reparent_info :: "owner \<Rightarrow> Info \<Rightarrow> Info" where
  "reparent_info p i =
     \<lparr>n_parent = p, name = name i, files = map (\<lambda>(k, f). (k, AsPath (py_str f))) (files i)\<rparr>"

text \<open>
  What every tree built through the constructors satisfies: the constructor of an item
  refuses an absent resource id, and the keys of a dict are distinct.
\<close>

definition wf_item :: "Item \<Rightarrow> bool" where
  "wf_item it = (image_id it \<noteq> PNone)"

definition wf_section :: "Section \<Rightarrow> bool" where
  "wf_section s = (wf_dict (s_content s) \<and> list_all (\<lambda>(k, it). wf_item it) (s_content s))"

definition wf_data :: "Data \<Rightarrow> bool" where
  "wf_data d = (wf_dict (sections d) \<and> list_all (\<lambda>(k, s). wf_section s) (sections d))"

fun is_version_error :: "error \<Rightarrow> bool" where
  "is_version_error (VersionError a b c) = True"
| "is_version_error e = False"

text \<open>A payload as the export writes it, with another version tag.\<close>

definition with_version :: "int \<Rightarrow> pyval pydict \<Rightarrow> bytes" where
  "with_version v d = pickle_dumps (PDict (dict_set ''version'' (PInt v) d))"

text \<open>
  Three ways to describe what a filesystem state \<open>x\<close> holds at the target \<open>T\<close> of a
  \<^verbatim>\<open>save\<close> over a previous archive \<open>old\<close>:
  \<^item> \<open>target_consistent\<close>: the target is absent, holds the previous archive or holds a
    valid archive (one that passes \<^verbatim>\<open>_check_validity\<close>);
  \<^item> \<open>under_construction\<close>: the previous archive lies at the \<^verbatim>\<open>.old\<close> sibling and the
    target is absent or an unfinished container;
  \<^item> \<open>old_kept\<close>: the target holds the previous archive, or the state is under
    construction.
\<close>

definition target_consistent :: "bytes \<Rightarrow> string \<Rightarrow> fs \<Rightarrow> bool" where
  "target_consistent old T x = (case x T of None \<Rightarrow> True | Some b \<Rightarrow> b = old \<or> valid_archive b)"

definition under_construction :: "bytes \<Rightarrow> string \<Rightarrow> fs \<Rightarrow> bool" where
  "under_construction old T x =
     (x (old_marker T) = Some old \<and>
      (case x T of None \<Rightarrow> True | Some (Zip False es) \<Rightarrow> True | Some b \<Rightarrow> False))"

definition old_kept :: "bytes \<Rightarrow> string \<Rightarrow> fs \<Rightarrow> bool" where
  "old_kept old T x = (x T = Some old \<or> under_construction old T x)"

text \<open>
  The outcome and the final filesystem of the \<^verbatim>\<open>try\<close> block of a \<^verbatim>\<open>save\<close> to \<open>T\<close> that
  has moved the old file aside.
\<close>

definition write_phase :: "faults \<Rightarrow> BDMFile \<Rightarrow> string \<Rightarrow> fs \<Rightarrow> fs upd" where
  "write_phase flt h T s =
     (case save_try flt h T (Some (old_marker T))
             (effect (fs_rename T (old_marker T)) \<lparr>now = s, past = []\<rparr>) of
        (r, w) \<Rightarrow> (r, now w))"

text \<open>The components that \<open>path_parts\<close> yields: no slash inside, not empty, not a dot.\<close>

definition clean_parts :: "string list \<Rightarrow> bool" where
  "clean_parts ps = (\<forall>p \<in> set ps. CHR ''/'' \<notin> set p \<and> p \<noteq> [] \<and> p \<noteq> ''.'')"

text \<open>The path that \<^verbatim>\<open>save\<close> writes to.\<close>

definition save_target :: "BDMFile \<Rightarrow> path_like option \<Rightarrow> string" where
  "save_target h p = (case p of None \<Rightarrow> path h | Some q \<Rightarrow> ensure_Path q)"

section \<open>Example objects\<close>

text \<open>
  Two read-write handles \<open>A\<close> and \<open>B\<close> (mode \<^verbatim>\<open>r+\<close>) and a read-only handle \<open>R\<close>
  (mode \<^verbatim>\<open>r\<close>), each with one section holding one item and with one registered
  resource, and filesystems for them.
\<close>

definition owner_A :: owner where
  "owner_A = \<lparr>oid = 1, opath = ''a.bdm'', oreadable = True, owritable = True\<rparr>"

definition owner_B :: owner where
  "owner_B = \<lparr>oid = 2, opath = ''b.bdm'', oreadable = True, owritable = True\<rparr>"

definition owner_R :: owner where
  "owner_R = \<lparr>oid = 3, opath = ''c.bdm'', oreadable = True, owritable = False\<rparr>"

definition item_of :: "owner \<Rightarrow> Item" where
  "item_of p = \<lparr>i_parent = p, title = PStr ''T'', content = PStr ''C'',
                image_id = PStr ''img1'', level = PInt 1, data = PNone\<rparr>"

definition section_of :: "owner \<Rightarrow> Section" where
  "section_of p = \<lparr>s_parent = p, s_type = PStr ''list'', description = PStr ''D'',
                   s_content = [(''k'', item_of p)]\<rparr>"

definition data_of :: "owner \<Rightarrow> Data" where
  "data_of p = \<lparr>d_parent = p, sections = [(''s'', section_of p)]\<rparr>"

definition info_of :: "owner \<Rightarrow> Info" where
  "info_of p = \<lparr>n_parent = p, name = PStr ''NoName'', files = [(''img1'', AsPath ''x.png'')]\<rparr>"

definition handle_A :: BDMFile where
  "handle_A = \<lparr>ident = 1, path = ''a.bdm'', mode = ''r+'', readable = True, writable = True,
               info = info_of owner_A, bdm_data = data_of owner_A,
               internal_root_dir = Some ''tmp/u1'', internal_files_dir = Some ''tmp/u1/files''\<rparr>"

definition handle_R :: BDMFile where
  "handle_R = \<lparr>ident = 3, path = ''c.bdm'', mode = ''r'', readable = True, writable = False,
               info = info_of owner_R, bdm_data = data_of owner_R,
               internal_root_dir = None, internal_files_dir = None\<rparr>"

definition archive_old :: bytes where
  "archive_old = Zip True [(''data'', Pickled (PDict [(''version'', PInt 2), (''sections'', PDict [])])),
                           (''info'', Pickled (PDict [(''version'', PInt 2), (''files'', PDict []),
                                                      (''name'', PStr ''NoName'')])),
                           (''files/x.png'', Raw [1, 2, 3])]"

text \<open>\<open>disk_A\<close> has the staged copy of the resource, \<open>disk_A_unstaged\<close> has lost it.\<close>

definition disk_A :: fs where
  "disk_A = [''a.bdm'' \<mapsto> archive_old, ''tmp/u1/files/x.png'' \<mapsto> Raw [4, 5]]"

definition disk_A_unstaged :: fs where
  "disk_A_unstaged = [''a.bdm'' \<mapsto> archive_old]"

definition disk_R :: fs where
  "disk_R = [''c.bdm'' \<mapsto> archive_old]"

text \<open>A handle \<open>W\<close> opened for writing only (mode \<^verbatim>\<open>w\<close>), which is not readable.\<close>

definition owner_W :: owner where
  "owner_W = \<lparr>oid = 4, opath = ''w.bdm'', oreadable = False, owritable = True\<rparr>"

definition handle_W :: BDMFile where
  "handle_W = \<lparr>ident = 4, path = ''w.bdm'', mode = ''w'', readable = False, writable = True,
               info = info_of owner_W, bdm_data = data_of owner_W,
               internal_root_dir = Some ''tmp/u4'', internal_files_dir = Some ''tmp/u4/files''\<rparr>"

text \<open>
  Two patterns of failure during a \<^verbatim>\<open>save\<close>: an interrupt from the keyboard while the
  index is written, and a full disk at the same statement followed by a handler whose
  rename is refused.
\<close>

definition flt_interrupt :: faults where
  "flt_interrupt = (\<lambda>st. if st = WriteInfo then Some KeyboardInterrupt else None)"

definition flt_handler_stuck :: faults where
  "flt_handler_stuck =
     (\<lambda>st. if st = WriteInfo then Some OSError
           else if st = HandlerRename then Some OSError else None)"

text \<open>An index as \<^verbatim>\<open>add_file\<close> leaves it, the internal name given by the caller with a
  leading \<^verbatim>\<open>./\<close>.\<close>

definition info_dotted :: Info where
  "info_dotted = \<lparr>n_parent = owner_A, name = PStr ''NoName'',
                  files = [(''img1'', AsStr ''./x.png'')]\<rparr>"


section \<open>Dictionaries: the loops over their keys\<close>

lemma dict_set_not_Nil: "dict_set k v ps \<noteq> []"
  by (cases ps) auto

lemma dict_set_fresh: "k \<notin> fst ` set acc \<Longrightarrow> dict_set k v acc = acc @ [(k, v)]"
  by (induction acc) auto

lemma export_loop_distinct:
  "distinct ks \<Longrightarrow> set ks \<inter> fst ` set acc = {} \<Longrightarrow> set ks \<subseteq> fst ` set src \<Longrightarrow>
   export_loop f src ks acc = acc @ map (\<lambda>k. (k, f (the (map_of src k)))) ks"
proof (induction ks arbitrary: acc)
  case Nil
  then show ?case by simp
next
  case (Cons k ks)
  from Cons.prems(3) obtain n where n: "map_of src k = Some n"
    by (metis list.set_intros(1) subsetD map_of_eq_None_iff not_Some_eq)
  from Cons.prems(2) have fresh: "k \<notin> fst ` set acc" by auto
  have "export_loop f src (k # ks) acc = export_loop f src ks (acc @ [(k, f n)])"
    using n fresh by (simp add: dict_get_def dict_set_fresh)
  also have "\<dots> = (acc @ [(k, f n)]) @ map (\<lambda>k. (k, f (the (map_of src k)))) ks"
    using Cons.prems by (intro Cons.IH) auto
  finally show ?case using n by simp
qed

lemma keys_lookup_map:
  "distinct (map fst src) \<Longrightarrow>
   map (\<lambda>k. (k, f (the (map_of src k)))) (map fst src) = map (\<lambda>(k, n). (k, f n)) src"
  by (induction src) (auto simp: rev_image_eqI)

lemma export_loop_all:
  "wf_dict src \<Longrightarrow> export_loop f src (dict_keys src) [] = map (\<lambda>(k, n). (k, f n)) src"
  using export_loop_distinct[of "map fst src" "[]" src f] keys_lookup_map[of src f]
  by (simp add: wf_dict_def dict_keys_def)

lemma build_loop_distinct:
  "distinct ks \<Longrightarrow> set ks \<inter> fst ` set acc = {} \<Longrightarrow>
   (\<And>k. k \<in> set ks \<Longrightarrow> \<exists>v. map_of src k = Some v \<and> build v = Inr (g k)) \<Longrightarrow>
   build_loop build src ks acc = Inr (acc @ map (\<lambda>k. (k, g k)) ks)"
proof (induction ks arbitrary: acc)
  case Nil
  then show ?case by simp
next
  case (Cons k ks)
  from Cons.prems(3)[of k] obtain v where v: "map_of src k = Some v" "build v = Inr (g k)"
    by auto
  from Cons.prems(2) have fresh: "k \<notin> fst ` set acc" by auto
  have "build_loop build src (k # ks) acc = build_loop build src ks (acc @ [(k, g k)])"
    using v fresh by (simp add: dict_get_def dict_set_fresh)
  also have "\<dots> = Inr ((acc @ [(k, g k)]) @ map (\<lambda>k. (k, g k)) ks)"
    using Cons.prems by (intro Cons.IH) auto
  finally show ?case by simp
qed

text \<open>Importing what the export loop wrote: each value is rebuilt by \<open>build\<close>.\<close>

lemma build_export:
  assumes wf: "wf_dict src"
    and each: "\<And>k n. (k, n) \<in> set src \<Longrightarrow> build (f n) = Inr (r n)"
  shows "build_all build (PDict (map (\<lambda>(k, n). (k, f n)) src)) = Inr (map (\<lambda>(k, n). (k, r n)) src)"
proof -
  let ?out = "map (\<lambda>(k, n). (k, f n)) src"
  have keys: "map fst ?out = map fst src" by (induction src) auto
  have dist: "distinct (map fst ?out)"
    unfolding keys using wf by (simp add: wf_dict_def dict_keys_def)
  have look: "\<exists>v. map_of ?out k = Some v \<and> build v = Inr (r (the (map_of src k)))"
    if "k \<in> set (map fst ?out)" for k
  proof -
    from that keys obtain n where kn: "(k, n) \<in> set src" by force
    with wf have "map_of src k = Some n" by (simp add: wf_dict_def dict_keys_def)
    moreover from kn have "(k, f n) \<in> set ?out" by force
    with dist have "map_of ?out k = Some (f n)" by simp
    ultimately show ?thesis using each[OF kn] by simp
  qed
  have "build_loop build ?out (map fst ?out) [] =
          Inr ([] @ map (\<lambda>k. (k, r (the (map_of src k)))) (map fst ?out))"
    by (rule build_loop_distinct) (use dist look in auto)
  also have "map (\<lambda>k. (k, r (the (map_of src k)))) (map fst ?out) = map (\<lambda>(k, n). (k, r n)) src"
    unfolding keys using wf keys_lookup_map[of src r] by (simp only: wf_dict_def dict_keys_def)
  finally show ?thesis by (simp add: dict_keys_def)
qed

section \<open>Metadata of an item\<close>

lemma add_data_ok: "Item_add_data it n v = (None, it') \<Longrightarrow> metadata_ok it'"
  by (cases "data it")
     (auto simp: Item_add_data_def metadata_ok_def dict_set_not_Nil split: if_splits)

lemma remove_data_ok: "Item_remove_data it n = (None, it') \<Longrightarrow> metadata_ok it'"
  by (cases "data it")
     (auto simp: Item_remove_data_def metadata_ok_def Let_def split: if_splits bool.splits)

lemma run_data_ops_ok:
  "metadata_ok it \<Longrightarrow> run_data_ops it ops = (None, it') \<Longrightarrow> metadata_ok it'"
proof (induction ops arbitrary: it)
  case Nil
  then show ?case by simp
next
  case (Cons x xs)
  obtain r it1 where step: "apply_data_op it x = (r, it1)" by (cases "apply_data_op it x")
  with Cons.prems(2) have r: "r = None" and rest: "run_data_ops it1 xs = (None, it')"
    by (auto split: option.splits)
  from step r have "metadata_ok it1"
    by (cases x) (auto dest: add_data_ok remove_data_ok)
  from this rest show ?case by (rule Cons.IH)
qed

text \<open>
  Claim C10. An item built without metadata keeps, through every sequence of
  \<^verbatim>\<open>add_data\<close> and \<^verbatim>\<open>remove_data\<close> calls that all succeed, a metadata field that
  is absent or a non-empty mapping: \<^verbatim>\<open>add_data\<close> on an item without metadata creates
  the mapping with the one key, and \<^verbatim>\<open>remove_data\<close> of the only key sets the field
  back to absent.
\<close>

theorem C10_metadata_none_or_nonempty:
  assumes "data it = PNone"
  shows "(run_data_ops it ops = (None, it') \<longrightarrow> metadata_ok it')
     \<and> (owritable (i_parent it) \<longrightarrow> Item_add_data it n v = (None, it\<lparr>data := PDict [(n, v)]\<rparr>))
     \<and> (owritable (i_parent it) \<longrightarrow>
          Item_remove_data (it\<lparr>data := PDict [(n, v)]\<rparr>) n = (None, it))"
proof -
  have "metadata_ok it" using assms by (simp add: metadata_ok_def)
  then have a: "run_data_ops it ops = (None, it') \<longrightarrow> metadata_ok it'"
    using run_data_ops_ok by blast
  have b: "owritable (i_parent it) \<longrightarrow> Item_add_data it n v = (None, it\<lparr>data := PDict [(n, v)]\<rparr>)"
    using assms by (simp add: Item_add_data_def)
  have c: "owritable (i_parent it) \<longrightarrow>
             Item_remove_data (it\<lparr>data := PDict [(n, v)]\<rparr>) n = (None, it)"
    using assms by (simp add: Item_remove_data_def dict_has_def dict_keys_def dict_del_def)
  from a b c show ?thesis by blast
qed

theorem C10_metadata_witness:
  "data (item_of owner_A) = PNone
   \<and> run_data_ops (item_of owner_A)
        [AddData ''a'' (PInt 1), AddData ''b'' (PInt 2), RemoveData ''a'']
      = (None, (item_of owner_A)\<lparr>data := PDict [(''b'', PInt 2)]\<rparr>)
   \<and> metadata_ok ((item_of owner_A)\<lparr>data := PDict [(''b'', PInt 2)]\<rparr>)
   \<and> owritable (i_parent (item_of owner_A))
   \<and> Item_add_data (item_of owner_A) ''a'' (PInt 1)
      = (None, (item_of owner_A)\<lparr>data := PDict [(''a'', PInt 1)]\<rparr>)
   \<and> Item_remove_data ((item_of owner_A)\<lparr>data := PDict [(''a'', PInt 1)]\<rparr>) ''a''
      = (None, item_of owner_A)"
proof -
  have d: "data (item_of owner_A) = PNone" by (simp add: item_of_def)
  have w: "owritable (i_parent (item_of owner_A))" by (simp add: item_of_def owner_A_def)
  have run: "run_data_ops (item_of owner_A)
               [AddData ''a'' (PInt 1), AddData ''b'' (PInt 2), RemoveData ''a'']
             = (None, (item_of owner_A)\<lparr>data := PDict [(''b'', PInt 2)]\<rparr>)"
    by (simp add: item_of_def owner_A_def Item_add_data_def Item_remove_data_def
          dict_has_def dict_keys_def dict_del_def)
  from C10_metadata_none_or_nonempty[OF d,
      of "[AddData ''a'' (PInt 1), AddData ''b'' (PInt 2), RemoveData ''a'']"
         "(item_of owner_A)\<lparr>data := PDict [(''b'', PInt 2)]\<rparr>" "''a''" "PInt 1"]
  show ?thesis using d w run by simp
qed

section \<open>Export and import of the document\<close>

lemma item_roundtrip:
  "wf_item it \<Longrightarrow> Item_from_kwargs p (PDict (Item_to_dict it)) = Inr (reparent_item p it)"
  by (simp add: Item_to_dict_def Item_init_def wf_item_def kwarg_def dict_get_def dict_has_def
        dict_keys_def reparent_item_def Let_def)

lemma section_roundtrip:
  assumes "wf_section s"
  shows "Section_from_kwargs p (PDict (Section_to_dict s)) = Inr (reparent_section p s)"
proof -
  have items: "build_all (Item_from_kwargs p)
                 (PDict (map (\<lambda>(k, it). (k, PDict (Item_to_dict it))) (s_content s)))
               = Inr (map (\<lambda>(k, it). (k, reparent_item p it)) (s_content s))"
  proof (rule build_export)
    show "wf_dict (s_content s)" using assms by (simp add: wf_section_def)
    fix k n assume "(k, n) \<in> set (s_content s)"
    with assms have "wf_item n" by (auto simp: wf_section_def list_all_iff)
    then show "Item_from_kwargs p (PDict (Item_to_dict n)) = Inr (reparent_item p n)"
      by (rule item_roundtrip)
  qed
  have exp: "export_loop (\<lambda>it. PDict (Item_to_dict it)) (s_content s) (dict_keys (s_content s)) []
             = map (\<lambda>(k, it). (k, PDict (Item_to_dict it))) (s_content s)"
    using assms by (simp add: export_loop_all wf_section_def)
  have dict: "Section_to_dict s =
      [(''type'', s_type s), (''description'', description s),
       (''content'', PDict (map (\<lambda>(k, it). (k, PDict (Item_to_dict it))) (s_content s)))]"
    by (simp add: Section_to_dict_def exp)
  show ?thesis
    by (simp add: dict Section_init_def items kwarg_def dict_get_def
          dict_has_def dict_keys_def reparent_section_def del: build_all.simps)
qed

lemma data_init_roundtrip:
  assumes "wf_data d"
  shows "Data_init p (PDict (export_loop (\<lambda>s. PDict (Section_to_dict s)) (sections d)
                              (dict_keys (sections d)) [])) = Inr (reparent_data p d)"
proof -
  have secs: "build_all (Section_from_kwargs p)
                 (PDict (map (\<lambda>(k, s). (k, PDict (Section_to_dict s))) (sections d)))
               = Inr (map (\<lambda>(k, s). (k, reparent_section p s)) (sections d))"
  proof (rule build_export)
    show "wf_dict (sections d)" using assms by (simp add: wf_data_def)
    fix k n assume "(k, n) \<in> set (sections d)"
    with assms have "wf_section n" by (auto simp: wf_data_def list_all_iff)
    then show "Section_from_kwargs p (PDict (Section_to_dict n)) = Inr (reparent_section p n)"
      by (rule section_roundtrip)
  qed
  have exp: "export_loop (\<lambda>s. PDict (Section_to_dict s)) (sections d) (dict_keys (sections d)) []
             = map (\<lambda>(k, s). (k, PDict (Section_to_dict s))) (sections d)"
    using assms by (simp add: export_loop_all wf_data_def)
  show ?thesis by (simp add: exp Data_init_def secs reparent_data_def del: build_all.simps)
qed

lemma info_init_roundtrip:
  assumes "wf_dict (files i)"
  shows "Info_init p (name i)
           (PDict (export_loop (\<lambda>f. PStr (py_str f)) (files i) (dict_keys (files i)) []))
         = Inr (reparent_info p i)"
proof -
  have fl: "build_all to_Path (PDict (map (\<lambda>(k, f). (k, PStr (py_str f))) (files i)))
            = Inr (map (\<lambda>(k, f). (k, AsPath (py_str f))) (files i))"
    by (rule build_export) (use assms in auto)
  have exp: "export_loop (\<lambda>f. PStr (py_str f)) (files i) (dict_keys (files i)) []
             = map (\<lambda>(k, f). (k, PStr (py_str f))) (files i)"
    using assms by (simp add: export_loop_all)
  show ?thesis by (simp add: exp Info_init_def fl reparent_info_def del: build_all.simps)
qed

text \<open>
  Claim C3. Exporting a document and importing the bytes under a handle gives back the
  same tree: the same section keys in the same order, and in each section the same
  item keys in the same order with the same title, content, resource id, level and
  metadata; only the ownership links are those of the importing handle. The document
  is any one whose dicts have distinct keys and whose items carry a resource id, as the
  constructor of an item demands.
\<close>

theorem C3_roundtrip:
  "wf_data d \<Longrightarrow> Data_import_data (Data_export_data d) p = Inr (reparent_data p d)"
  by (simp add: Data_import_data_def Data_export_data_def pickle_dumps_def Data_export_dict_def
        dict_get_def dict_del_def VERSION_def data_init_roundtrip)

lemma wf_data_of: "wf_data (data_of p)"
  by (simp add: wf_data_def wf_section_def wf_item_def wf_dict_def dict_keys_def
        data_of_def section_of_def item_of_def)

theorem C3_roundtrip_witness:
  "wf_data (data_of owner_A)
   \<and> Data_import_data (Data_export_data (data_of owner_A)) owner_B = Inr (data_of owner_B)"
proof -
  have r: "reparent_data owner_B (data_of owner_A) = data_of owner_B"
    by (simp add: reparent_data_def reparent_section_def reparent_item_def
          data_of_def section_of_def item_of_def)
  from C3_roundtrip[OF wf_data_of, of owner_A owner_B] show ?thesis
    using wf_data_of[of owner_A] r by simp
qed

section \<open>The version gate\<close>

lemma build_loop_error:
  "build_loop build src ks acc = Inl e \<Longrightarrow> e = KeyError \<or> (\<exists>v. build v = Inl e)"
  by (induction ks arbitrary: acc) (auto split: option.splits sum.splits)

lemma build_all_error:
  "build_all build v = Inl e \<Longrightarrow> e = KeyError \<or> e = TypeError \<or> (\<exists>x. build x = Inl e)"
  by (cases v) (auto dest: build_loop_error split: if_splits)

lemma Item_from_kwargs_error: "Item_from_kwargs p v = Inl e \<Longrightarrow> \<not> is_version_error e"
  by (cases v) (auto simp: Item_init_def split: if_splits)

lemma Section_from_kwargs_error: "Section_from_kwargs p v = Inl e \<Longrightarrow> \<not> is_version_error e"
  by (cases v)
     (auto simp: Section_init_def split: if_splits sum.splits
           dest!: build_all_error dest: Item_from_kwargs_error)

lemma Data_init_error: "Data_init p v = Inl e \<Longrightarrow> \<not> is_version_error e"
  by (auto simp: Data_init_def split: sum.splits dest!: build_all_error
        dest: Section_from_kwargs_error)

lemma to_Path_error: "to_Path v = Inl e \<Longrightarrow> \<not> is_version_error e"
  by (cases v) auto

lemma Info_init_error: "Info_init p n v = Inl e \<Longrightarrow> \<not> is_version_error e"
  by (auto simp: Info_init_def split: sum.splits dest!: build_all_error dest: to_Path_error)

text \<open>
  Claim C4. A document payload or a resource-index payload whose integer version tag
  is greater than 2 is refused with \<open>VersionError 2 found path\<close>, by both imports. With a
  tag of at most 2 no import raises a version error, and the payloads that the exports
  write, carrying such a tag, are imported successfully: the document as it was
  exported, and the index with each internal name as the \<^verbatim>\<open>Path\<close> of its exported text.
\<close>

theorem C4_version_gate:
  "(pickle_loads b = Inr (PDict kvs) \<and> dict_get kvs ''version'' = Some (PInt v) \<and> 2 < v \<longrightarrow>
      Data_import_data b p = Inl (VersionError 2 (PInt v) (opath p))
      \<and> Info_import_data b p = Inl (VersionError 2 (PInt v) (opath p)))
   \<and> (pickle_loads b' = Inr (PDict kvs') \<and> dict_get kvs' ''version'' = Some (PInt u) \<and> u \<le> 2 \<longrightarrow>
      (\<forall>e. Data_import_data b' p = Inl e \<longrightarrow> \<not> is_version_error e)
      \<and> (\<forall>e. Info_import_data b' p = Inl e \<longrightarrow> \<not> is_version_error e))
   \<and> (u \<le> 2 \<and> wf_data d \<longrightarrow>
      Data_import_data (with_version u (Data_export_dict d)) p = Inr (reparent_data p d))
   \<and> (u \<le> 2 \<and> wf_dict (files i) \<longrightarrow>
      Info_import_data (with_version u (Info_export_dict i)) p = Inr (reparent_info p i))"
proof (intro conjI impI)
  assume a: "pickle_loads b = Inr (PDict kvs) \<and> dict_get kvs ''version'' = Some (PInt v) \<and> 2 < v"
  then show "Data_import_data b p = Inl (VersionError 2 (PInt v) (opath p))"
    by (simp add: Data_import_data_def VERSION_def)
  from a show "Info_import_data b p = Inl (VersionError 2 (PInt v) (opath p))"
    by (simp add: Info_import_data_def VERSION_def)
next
  assume a: "pickle_loads b' = Inr (PDict kvs') \<and> dict_get kvs' ''version'' = Some (PInt u) \<and> u \<le> 2"
  then show "\<forall>e. Data_import_data b' p = Inl e \<longrightarrow> \<not> is_version_error e"
    by (auto simp: Data_import_data_def VERSION_def split: option.splits dest: Data_init_error)
  from a show "\<forall>e. Info_import_data b' p = Inl e \<longrightarrow> \<not> is_version_error e"
    by (auto simp: Info_import_data_def VERSION_def Let_def split: option.splits
          dest: Info_init_error)
next
  assume "u \<le> 2 \<and> wf_data d"
  then show "Data_import_data (with_version u (Data_export_dict d)) p = Inr (reparent_data p d)"
    by (simp add: Data_import_data_def with_version_def pickle_dumps_def Data_export_dict_def
          dict_get_def dict_del_def VERSION_def data_init_roundtrip)
next
  assume "u \<le> 2 \<and> wf_dict (files i)"
  then show "Info_import_data (with_version u (Info_export_dict i)) p = Inr (reparent_info p i)"
    by (simp add: Info_import_data_def with_version_def pickle_dumps_def Info_export_dict_def
          dict_get_def dict_del_def VERSION_def info_init_roundtrip Let_def)
qed

lemma reparent_data_of: "reparent_data q (data_of p) = data_of q"
  by (simp add: reparent_data_def reparent_section_def reparent_item_def
        data_of_def section_of_def item_of_def)

theorem C4_version_gate_witness:
  "pickle_loads (with_version 3 (Data_export_dict (data_of owner_A)))
     = Inr (PDict (dict_set ''version'' (PInt 3) (Data_export_dict (data_of owner_A))))
   \<and> dict_get (dict_set ''version'' (PInt 3) (Data_export_dict (data_of owner_A))) ''version''
     = Some (PInt 3)
   \<and> (2::int) < 3
   \<and> Data_import_data (with_version 3 (Data_export_dict (data_of owner_A))) owner_B
     = Inl (VersionError 2 (PInt 3) ''b.bdm'')
   \<and> Info_import_data (with_version 3 (Data_export_dict (data_of owner_A))) owner_B
     = Inl (VersionError 2 (PInt 3) ''b.bdm'')
   \<and> pickle_loads (with_version 1 (Data_export_dict (data_of owner_A)))
     = Inr (PDict (dict_set ''version'' (PInt 1) (Data_export_dict (data_of owner_A))))
   \<and> dict_get (dict_set ''version'' (PInt 1) (Data_export_dict (data_of owner_A))) ''version''
     = Some (PInt 1)
   \<and> (1::int) \<le> 2
   \<and> wf_data (data_of owner_A)
   \<and> Data_import_data (with_version 1 (Data_export_dict (data_of owner_A))) owner_B
     = Inr (data_of owner_B)
   \<and> wf_dict (files (info_of owner_A))
   \<and> Info_import_data (with_version 1 (Info_export_dict (info_of owner_A))) owner_B
     = Inr ((info_of owner_B)\<lparr>files := [(''img1'', AsPath (py_str (AsPath ''x.png'')))]\<rparr>)
   \<and> py_str (AsPath ''x.png'') = ''x.png''"
proof -
  have l3: "pickle_loads (with_version 3 (Data_export_dict (data_of owner_A)))
     = Inr (PDict (dict_set ''version'' (PInt 3) (Data_export_dict (data_of owner_A))))"
    by (simp add: with_version_def pickle_dumps_def)
  have g3: "dict_get (dict_set ''version'' (PInt 3) (Data_export_dict (data_of owner_A))) ''version''
     = Some (PInt 3)"
    by (simp add: Data_export_dict_def dict_get_def)
  have l1: "pickle_loads (with_version 1 (Data_export_dict (data_of owner_A)))
     = Inr (PDict (dict_set ''version'' (PInt 1) (Data_export_dict (data_of owner_A))))"
    by (simp add: with_version_def pickle_dumps_def)
  have g1: "dict_get (dict_set ''version'' (PInt 1) (Data_export_dict (data_of owner_A))) ''version''
     = Some (PInt 1)"
    by (simp add: Data_export_dict_def dict_get_def)
  have wfi: "wf_dict (files (info_of owner_A))"
    by (simp add: info_of_def wf_dict_def dict_keys_def)
  have ri: "reparent_info owner_B (info_of owner_A)
            = (info_of owner_B)\<lparr>files := [(''img1'', AsPath (py_str (AsPath ''x.png'')))]\<rparr>"
    by (simp add: info_of_def reparent_info_def)
  have px: "py_str (AsPath ''x.png'') = ''x.png''" by code_simp
  have op: "opath owner_B = ''b.bdm''" by (simp add: owner_B_def)
  from C4_version_gate[of "with_version 3 (Data_export_dict (data_of owner_A))"
      "dict_set ''version'' (PInt 3) (Data_export_dict (data_of owner_A))" 3 owner_B
      "with_version 1 (Data_export_dict (data_of owner_A))"
      "dict_set ''version'' (PInt 1) (Data_export_dict (data_of owner_A))" 1
      "data_of owner_A" "info_of owner_A"]
  show ?thesis
    using l3 g3 l1 g1 wfi wf_data_of[of owner_A] reparent_data_of[of owner_B owner_A] ri op px
    by simp
qed

section \<open>Insertion into sections and documents\<close>

text \<open>
  Claim C5. Assigning an item whose ownership link is another handle into a section of
  a writable handle raises \<open>InvalidParent\<close> (expected link, given link, path of the
  expected handle) and leaves the section as it was; assigning a section with a foreign
  link into a document does the same.
\<close>

theorem C5_ownership_gate:
  "(owritable (s_parent s) \<and> oid (i_parent it) \<noteq> oid (s_parent s) \<longrightarrow>
      Section_setitem s key it
        = (Some (InvalidParent (s_parent s) (i_parent it) (opath (s_parent s))), s))
   \<and> (owritable (d_parent d) \<and> oid (s_parent sec) \<noteq> oid (d_parent d) \<longrightarrow>
      Data_setitem d key' sec
        = (Some (InvalidParent (d_parent d) (s_parent sec) (opath (d_parent d))), d))"
  by (simp add: Section_setitem_def Data_setitem_def)

theorem C5_ownership_gate_witness:
  "owritable (s_parent (section_of owner_B))
   \<and> oid (i_parent (item_of owner_A)) \<noteq> oid (s_parent (section_of owner_B))
   \<and> Section_setitem (section_of owner_B) ''n'' (item_of owner_A)
       = (Some (InvalidParent owner_B owner_A ''b.bdm''), section_of owner_B)
   \<and> owritable (d_parent (data_of owner_B))
   \<and> oid (s_parent (section_of owner_A)) \<noteq> oid (d_parent (data_of owner_B))
   \<and> Data_setitem (data_of owner_B) ''n'' (section_of owner_A)
       = (Some (InvalidParent owner_B owner_A ''b.bdm''), data_of owner_B)"
proof -
  have f: "s_parent (section_of owner_B) = owner_B" "i_parent (item_of owner_A) = owner_A"
    "d_parent (data_of owner_B) = owner_B" "s_parent (section_of owner_A) = owner_A"
    "owritable owner_B" "oid owner_A \<noteq> oid owner_B" "opath owner_B = ''b.bdm''"
    by (simp_all add: section_of_def item_of_def data_of_def owner_A_def owner_B_def)
  from C5_ownership_gate[of "section_of owner_B" "item_of owner_A" "''n''" "data_of owner_B"
      "section_of owner_A" "''n''"]
  show ?thesis using f by simp
qed

text \<open>
  Claim C7. \<^verbatim>\<open>add_item(title, content, image_id, level, name, data)\<close> is meant to
  store an item with these fields. The call with the default \<^verbatim>\<open>data=None\<close> raises
  ValueError and stores nothing; with a metadata mapping it stores an item whose level
  is the \<^verbatim>\<open>image_id\<close> argument, whose metadata is the \<^verbatim>\<open>level\<close> argument and whose
  resource id is the \<^verbatim>\<open>data\<close> argument.
\<close>

theorem C7_add_item_argument_order:
  "Section_add_item (section_of owner_A) ''u1'' (PStr ''T2'') (PStr ''C2'') (PStr ''img2'') (PInt 5)
      (Some ''n'') PNone
     = (Some ValueError, section_of owner_A)
   \<and> Section_add_item (section_of owner_A) ''u1'' (PStr ''T2'') (PStr ''C2'') (PStr ''img2'') (PInt 5)
      (Some ''n'') (PDict [(''a'', PInt 7)])
     = (None, (section_of owner_A)\<lparr>s_content :=
          [(''k'', item_of owner_A),
           (''n'', \<lparr>i_parent = owner_A, title = PStr ''T2'', content = PStr ''C2'',
                    image_id = PDict [(''a'', PInt 7)], level = PStr ''img2'',
                    data = PInt 5\<rparr>)]\<rparr>)"
  by (simp add: Section_add_item_def Item_init_def Section_setitem_def section_of_def
        item_of_def owner_A_def)

text \<open>
  Claim C9. Inserting under a key that is already present: \<^verbatim>\<open>__setitem__\<close> and
  \<^verbatim>\<open>add_section\<close> replace the stored entry without an error, and so does \<^verbatim>\<open>add_item\<close>
  when it is given a metadata mapping; \<^verbatim>\<open>add_item\<close> with an explicit name and the
  default \<^verbatim>\<open>data=None\<close> raises ValueError and leaves the old entry in place.
\<close>

theorem C9_insert_on_present_key:
  "dict_has (s_content (section_of owner_A)) ''k''
   \<and> Section_setitem (section_of owner_A) ''k'' ((item_of owner_A)\<lparr>title := PStr ''T2''\<rparr>)
     = (None, (section_of owner_A)\<lparr>s_content :=
                [(''k'', (item_of owner_A)\<lparr>title := PStr ''T2''\<rparr>)]\<rparr>)
   \<and> dict_has (sections (data_of owner_A)) ''s''
   \<and> Data_add_section (data_of owner_A) ''s'' (PStr ''t'') (PStr ''d'')
     = (None, (data_of owner_A)\<lparr>sections :=
                [(''s'', \<lparr>s_parent = owner_A, s_type = PStr ''t'', description = PStr ''d'',
                          s_content = []\<rparr>)]\<rparr>)
   \<and> Section_add_item (section_of owner_A) ''u1'' (PStr ''T2'') (PStr ''C2'') (PStr ''img2'') (PInt 5)
      (Some ''k'') (PDict [(''a'', PInt 7)])
     = (None, (section_of owner_A)\<lparr>s_content :=
          [(''k'', \<lparr>i_parent = owner_A, title = PStr ''T2'', content = PStr ''C2'',
                    image_id = PDict [(''a'', PInt 7)], level = PStr ''img2'',
                    data = PInt 5\<rparr>)]\<rparr>)
   \<and> Section_add_item (section_of owner_A) ''u1'' (PStr ''T2'') (PStr ''C2'') (PStr ''img2'') (PInt 5)
      (Some ''k'') PNone
     = (Some ValueError, section_of owner_A)"
  by (simp add: Section_add_item_def Item_init_def Section_setitem_def Data_add_section_def
        Section_init_def Data_setitem_def data_of_def section_of_def item_of_def owner_A_def
        dict_has_def dict_keys_def)


text \<open>An internal name that \<^verbatim>\<open>add_file\<close> stored as the text \<^verbatim>\<open>./x.png\<close> comes back
  from the export and import as the \<^verbatim>\<open>Path\<close> of that text, which reads \<^verbatim>\<open>x.png\<close>.\<close>

lemma info_dotted_reimported:
  "Info_import_data (Info_export_data info_dotted) owner_B
     = Inr \<lparr>n_parent = owner_B, name = PStr ''NoName'', files = [(''img1'', AsPath ''./x.png'')]\<rparr>"
  "py_str (AsPath ''./x.png'') = ''x.png''"
  "py_str (AsStr ''./x.png'') = ''./x.png''"
proof -
  show "Info_import_data (Info_export_data info_dotted) owner_B
     = Inr \<lparr>n_parent = owner_B, name = PStr ''NoName'', files = [(''img1'', AsPath ''./x.png'')]\<rparr>"
    by (simp add: Info_import_data_def Info_export_data_def pickle_dumps_def Info_export_dict_def
          info_dotted_def dict_get_def dict_del_def dict_keys_def VERSION_def Info_init_def
          Let_def)
  show "py_str (AsPath ''./x.png'') = ''x.png''" by code_simp
  show "py_str (AsStr ''./x.png'') = ''./x.png''" by simp
qed


section \<open>Opening a handle\<close>

text \<open>A handle that \<^verbatim>\<open>BDMFile(path, mode)\<close> returns has the attributes described by
  \<open>opened\<close>, and its document and resource index carry the link to it.\<close>

lemma BDMFile_init_opened:
  assumes "BDMFile_init i tmp fresh p m s = (Inr h, s')"
  shows "opened h \<and> mode h = m \<and> path h = ensure_Path p \<and> ident h = i"
  using assms
  by (auto simp: BDMFile_init_def Let_def opened_def 
      split: if_splits option.splits sum.splits prod.splits)

lemma BDMFile_init_links:
  assumes "BDMFile_init i tmp fresh p m s = (Inr h, s')"
  shows "d_parent (bdm_data h) = owner_of h \<and> n_parent (info h) = owner_of h"
  using assms
  by (auto simp: BDMFile_init_def Let_def owner_of_def Data_init_def Info_init_def
        Data_import_data_def Info_import_data_def
      split: if_splits option.splits sum.splits prod.splits pyval.splits bool.splits)


section \<open>Mutation through a read-only handle\<close>

text \<open>
  Claim C6, amended. Through a handle opened read-only every mutating operation fails
  and leaves the document, the resource index and the filesystem as they were. The
  failure is \<open>UnsupportedOperation\<close> for \<^verbatim>\<open>add_section\<close>, for adding and removing
  metadata, for \<^verbatim>\<open>write_file\<close> and for assignment and deletion of items and sections;
  for \<^verbatim>\<open>remove_item\<close> it is \<open>UnsupportedOperation\<close> when the named item is there, and for
  \<^verbatim>\<open>add_file\<close> when the source file exists and the id is not registered yet. (A
  missing item, a missing source file and a registered id are reported first, as
  ValueError, FileNotFoundError and FileExistsError.)
\<close>

theorem C6_read_only_handle:
  assumes "opened h" and "mode h = ''r''"
    and "d_parent d = owner_of h" and "s_parent sec = owner_of h" and "i_parent it = owner_of h"
  shows
   "Data_add_section d nm ty de = (Some UnsupportedOperation, d)
    \<and> Item_add_data it k v = (Some UnsupportedOperation, it)
    \<and> Item_remove_data it k = (Some UnsupportedOperation, it)
    \<and> write_file h s fid b = (Some UnsupportedOperation, s)
    \<and> Section_setitem sec key it2 = (Some UnsupportedOperation, sec)
    \<and> Section_delitem sec key = (Some UnsupportedOperation, sec)
    \<and> Data_setitem d key sec2 = (Some UnsupportedOperation, d)
    \<and> Data_delitem d key = (Some UnsupportedOperation, d)
    \<and> fst (Section_add_item sec fresh t c i l n dt) \<noteq> None
    \<and> snd (Section_add_item sec fresh t c i l n dt) = sec
    \<and> fst (Section_remove_item sec key) \<noteq> None
    \<and> snd (Section_remove_item sec key) = sec
    \<and> (dict_has (s_content sec) key \<longrightarrow>
         Section_remove_item sec key = (Some UnsupportedOperation, sec))
    \<and> fst (add_file h s fresh p fid iname) \<noteq> None
    \<and> snd (add_file h s fresh p fid iname) = (h, s)
    \<and> (s (ensure_Path p) \<noteq> None \<and> \<not> dict_has (files (info h)) fid \<longrightarrow>
         add_file h s fresh p fid iname = (Some UnsupportedOperation, h, s))"
proof -
  from assms(1,2) have w: "\<not> writable h" and r: "readable h" by (simp_all add: opened_def)
  have o: "\<not> owritable (owner_of h)" "oreadable (owner_of h)"
    using w r by (simp_all add: owner_of_def)
  have 1: "Data_add_section d nm ty de = (Some UnsupportedOperation, d)"
    using o assms(3) by (simp add: Data_add_section_def Section_init_def Data_setitem_def dict_keys_def)
  have 2: "Item_add_data it k v = (Some UnsupportedOperation, it)"
    using o assms(5) by (simp add: Item_add_data_def)
  have 3: "Item_remove_data it k = (Some UnsupportedOperation, it)"
    using o assms(5) by (simp add: Item_remove_data_def)
  have 4: "write_file h s fid b = (Some UnsupportedOperation, s)"
    using w by (simp add: write_file_def)
  have 5: "Section_setitem sec key it2 = (Some UnsupportedOperation, sec)"
    using o assms(4) by (simp add: Section_setitem_def)
  have 6: "Section_delitem sec key = (Some UnsupportedOperation, sec)"
    using o assms(4) by (simp add: Section_delitem_def)
  have 7: "Data_setitem d key sec2 = (Some UnsupportedOperation, d)"
    using o assms(3) by (simp add: Data_setitem_def)
  have 8: "Data_delitem d key = (Some UnsupportedOperation, d)"
    using o assms(3) by (simp add: Data_delitem_def)
  have 9: "fst (Section_add_item sec fresh t c i l n dt) \<noteq> None
           \<and> snd (Section_add_item sec fresh t c i l n dt) = sec"
    using o assms(4) by (simp add: Section_add_item_def Section_setitem_def Let_def split: sum.splits)
  have 10: "fst (Section_remove_item sec key) \<noteq> None \<and> snd (Section_remove_item sec key) = sec"
    using o assms(4)
    by (simp add: Section_remove_item_def Section_contains_def Section_delitem_def
          split: bool.splits)
  have 11: "dict_has (s_content sec) key \<longrightarrow>
         Section_remove_item sec key = (Some UnsupportedOperation, sec)"
    using o assms(4)
    by (simp add: Section_remove_item_def Section_contains_def Section_delitem_def
          split: bool.splits)
  have 12: "fst (add_file h s fresh p fid iname) \<noteq> None
            \<and> snd (add_file h s fresh p fid iname) = (h, s)"
    using w by (simp add: add_file_def Let_def)
  have 13: "s (ensure_Path p) \<noteq> None \<and> \<not> dict_has (files (info h)) fid \<longrightarrow>
         add_file h s fresh p fid iname = (Some UnsupportedOperation, h, s)"
    using w by (simp add: add_file_def Let_def)
  from 1 2 3 4 5 6 7 8 9 10 11 12 13 show ?thesis by blast
qed


lemma handle_R_facts:
  "opened handle_R" "mode handle_R = ''r''" "owner_of handle_R = owner_R"
  by (simp_all add: opened_def handle_R_def owner_of_def owner_R_def)

theorem C6_read_only_handle_witness:
  "opened handle_R \<and> mode handle_R = ''r''
   \<and> d_parent (data_of owner_R) = owner_of handle_R
   \<and> s_parent (section_of owner_R) = owner_of handle_R
   \<and> i_parent (item_of owner_R) = owner_of handle_R
   \<and> Data_add_section (data_of owner_R) ''s2'' (PStr ''t'') (PStr ''d'')
       = (Some UnsupportedOperation, data_of owner_R)
   \<and> Item_add_data (item_of owner_R) ''a'' (PInt 1) = (Some UnsupportedOperation, item_of owner_R)
   \<and> Item_remove_data (item_of owner_R) ''a'' = (Some UnsupportedOperation, item_of owner_R)
   \<and> write_file handle_R disk_R ''img2'' (Raw [9]) = (Some UnsupportedOperation, disk_R)
   \<and> dict_has (s_content (section_of owner_R)) ''k''
   \<and> Section_remove_item (section_of owner_R) ''k''
       = (Some UnsupportedOperation, section_of owner_R)
   \<and> disk_R (ensure_Path (AsStr ''c.bdm'')) \<noteq> None
   \<and> \<not> dict_has (files (info handle_R)) ''img2''
   \<and> add_file handle_R disk_R ''u1'' (AsStr ''c.bdm'') ''img2'' None
       = (Some UnsupportedOperation, handle_R, disk_R)"
proof -
  have links: "d_parent (data_of owner_R) = owner_of handle_R"
    "s_parent (section_of owner_R) = owner_of handle_R"
    "i_parent (item_of owner_R) = owner_of handle_R"
    by (simp_all add: handle_R_facts data_of_def section_of_def item_of_def)
  have cb: "ensure_Path (AsStr ''c.bdm'') = ''c.bdm''" by code_simp
  have pre: "dict_has (s_content (section_of owner_R)) ''k''"
    "disk_R (ensure_Path (AsStr ''c.bdm'')) \<noteq> None"
    "\<not> dict_has (files (info handle_R)) ''img2''"
    by (simp_all add: cb section_of_def dict_has_def dict_keys_def disk_R_def handle_R_def
          info_of_def del: ensure_Path.simps)
  from C6_read_only_handle[OF handle_R_facts(1,2) links,
      where nm = "''s2''" and ty = "PStr ''t''" and de = "PStr ''d''" and k = "''a''"
        and v = "PInt 1" and s = disk_R and fid = "''img2''" and b = "Raw [9]"
        and key = "''k''" and fresh = "''u1''" and p = "AsStr ''c.bdm''" and iname = None]
  show ?thesis using handle_R_facts(1,2) links pre by (simp del: ensure_Path.simps)
qed

text \<open>
  The claim C6 as stated fails: on the read-only handle \<open>R\<close>, \<^verbatim>\<open>add_file\<close> with a source
  that does not exist raises FileNotFoundError, with a registered id FileExistsError,
  and \<^verbatim>\<open>remove_item\<close> of a missing name raises ValueError; none of them is
  \<open>UnsupportedOperation\<close>.
\<close>

theorem C6_add_file_checks_source_first:
  "opened handle_R \<and> mode handle_R = ''r''
   \<and> add_file handle_R disk_R ''u1'' (AsStr ''missing.png'') ''img2'' None
       = (Some FileNotFoundError, handle_R, disk_R)
   \<and> add_file handle_R disk_R ''u1'' (AsStr ''c.bdm'') ''img1'' None
       = (Some FileExistsError, handle_R, disk_R)
   \<and> s_parent (section_of owner_R) = owner_of handle_R
   \<and> Section_remove_item (section_of owner_R) ''absent'' = (Some ValueError, section_of owner_R)"
proof -
  have p: "ensure_Path (AsStr ''missing.png'') = ''missing.png''"
    "ensure_Path (AsStr ''c.bdm'') = ''c.bdm''"
    by code_simp+
  show ?thesis
    by (simp add: p opened_def handle_R_def add_file_def disk_R_def info_of_def dict_has_def
          dict_keys_def section_of_def owner_of_def owner_R_def Section_remove_item_def
          Section_contains_def Let_def del: ensure_Path.simps)
qed

section \<open>Reading a resource\<close>

text \<open>
  Claim C8, amended. In mode \<^verbatim>\<open>r+\<close> \<^verbatim>\<open>read_file\<close> returns the bytes of the staged copy,
  so what \<^verbatim>\<open>write_file\<close> has just written; in mode \<^verbatim>\<open>r\<close> it returns the bytes of the
  entry \<^verbatim>\<open>files/name\<close> of the container. On a handle that is not readable it raises
  \<open>UnsupportedOperation\<close>, whether the id is registered or not. On a readable handle an
  id that is not registered raises KeyError, the error of the failed lookup in the
  index (in mode \<^verbatim>\<open>r\<close> once the container has been opened), not FileNotFoundError.
\<close>

theorem C8_read_file:
  assumes "opened h" and "opened hr" and "opened hw" and "opened hu"
  shows
   "(mode h = ''r+'' \<and> internal_files_dir h = Some dir \<and> dict_get (files (info h)) fid = Some f
       \<and> s (joinpath dir (py_str f)) = Some b \<longrightarrow> read_file h s fid = Inr b)
    \<and> (mode h = ''r+'' \<and> write_file h s fid b' = (None, s') \<longrightarrow> read_file h s' fid = Inr b')
    \<and> (mode hr = ''r'' \<and> sr (path hr) = Some (Zip True es)
       \<and> dict_get (files (info hr)) fid = Some fr
       \<and> map_of (rev es) (''files/'' @ py_str fr) = Some br
       \<longrightarrow> read_file hr sr fid = Inr br)
    \<and> (\<not> readable hw \<longrightarrow> read_file hw sw fid = Inl UnsupportedOperation)
    \<and> (readable hu \<and> dict_get (files (info hu)) uid = None
       \<and> (mode hu = ''r'' \<longrightarrow> (\<exists>es. su (path hu) = Some (Zip True es)))
       \<longrightarrow> read_file hu su uid = Inl KeyError)"
proof (intro conjI impI)
  assume "mode h = ''r+'' \<and> internal_files_dir h = Some dir \<and> dict_get (files (info h)) fid = Some f
       \<and> s (joinpath dir (py_str f)) = Some b"
  then show "read_file h s fid = Inr b" by (simp add: read_file_def)
next
  assume a: "mode h = ''r+'' \<and> write_file h s fid b' = (None, s')"
  then show "read_file h s' fid = Inr b'"
    by (auto simp: read_file_def write_file_def split: if_splits option.splits)
next
  assume "mode hr = ''r'' \<and> sr (path hr) = Some (Zip True es)
       \<and> dict_get (files (info hr)) fid = Some fr
       \<and> map_of (rev es) (''files/'' @ py_str fr) = Some br"
  with assms(2) show "read_file hr sr fid = Inr br"
    by (simp add: read_file_def opened_def zip_open_def zip_read_def)
next
  assume "\<not> readable hw"
  with assms(3) show "read_file hw sw fid = Inl UnsupportedOperation"
    by (auto simp: read_file_def opened_def)
next
  assume a: "readable hu \<and> dict_get (files (info hu)) uid = None
       \<and> (mode hu = ''r'' \<longrightarrow> (\<exists>es. su (path hu) = Some (Zip True es)))"
  with assms(4) show "read_file hu su uid = Inl KeyError"
    by (auto simp: read_file_def opened_def zip_open_def split: option.splits)
qed


lemma handle_A_opened: "opened handle_A"
  by (simp add: opened_def handle_A_def)

lemma handle_W_opened: "opened handle_W"
  by (simp add: opened_def handle_W_def)

theorem C8_read_file_witness:
  "opened handle_A \<and> opened handle_R \<and> opened handle_W
   \<and> mode handle_A = ''r+'' \<and> internal_files_dir handle_A = Some ''tmp/u1/files''
   \<and> dict_get (files (info handle_A)) ''img1'' = Some (AsPath ''x.png'')
   \<and> disk_A (joinpath ''tmp/u1/files'' (py_str (AsPath ''x.png''))) = Some (Raw [4, 5])
   \<and> read_file handle_A disk_A ''img1'' = Inr (Raw [4, 5])
   \<and> fst (write_file handle_A disk_A ''img1'' (Raw [9])) = None
   \<and> read_file handle_A (snd (write_file handle_A disk_A ''img1'' (Raw [9]))) ''img1''
       = Inr (Raw [9])
   \<and> mode handle_R = ''r'' \<and> disk_R (path handle_R) = Some archive_old
   \<and> dict_get (files (info handle_R)) ''img1'' = Some (AsPath ''x.png'')
   \<and> read_file handle_R disk_R ''img1'' = Inr (Raw [1, 2, 3])
   \<and> \<not> readable handle_W
   \<and> read_file handle_W disk_A ''img1'' = Inl UnsupportedOperation
   \<and> readable handle_R \<and> dict_get (files (info handle_R)) ''img9'' = None
   \<and> read_file handle_R disk_R ''img9'' = Inl KeyError"
proof -
  have px: "py_str (AsPath ''x.png'') = ''x.png''"
    "joinpath ''tmp/u1/files'' ''x.png'' = ''tmp/u1/files/x.png''"
    by code_simp+
  have a: "mode handle_A = ''r+''" "internal_files_dir handle_A = Some ''tmp/u1/files''"
    "dict_get (files (info handle_A)) ''img1'' = Some (AsPath ''x.png'')"
    "disk_A (joinpath ''tmp/u1/files'' (py_str (AsPath ''x.png''))) = Some (Raw [4, 5])"
    by (simp_all add: px handle_A_def info_of_def dict_get_def disk_A_def del: py_str.simps)
  have w: "write_file handle_A disk_A ''img1'' (Raw [9])
           = (None, snd (write_file handle_A disk_A ''img1'' (Raw [9])))"
    by (simp add: write_file_def handle_A_def info_of_def dict_get_def del: py_str.simps)
  have r: "mode handle_R = ''r''"
    "disk_R (path handle_R) = Some (Zip True
        [(''data'', Pickled (PDict [(''version'', PInt 2), (''sections'', PDict [])])),
         (''info'', Pickled (PDict [(''version'', PInt 2), (''files'', PDict []),
                                    (''name'', PStr ''NoName'')])),
         (''files/x.png'', Raw [1, 2, 3])])"
    "dict_get (files (info handle_R)) ''img1'' = Some (AsPath ''x.png'')"
    "readable handle_R" "dict_get (files (info handle_R)) ''img9'' = None"
    by (simp_all add: handle_R_def info_of_def dict_get_def disk_R_def archive_old_def)
  have r2: "disk_R (path handle_R) = Some archive_old"
    by (simp add: handle_R_def disk_R_def)
  have nw: "\<not> readable handle_W" by (simp add: handle_W_def)
  have wf: "fst (write_file handle_A disk_A ''img1'' (Raw [9])) = None"
    by (simp add: write_file_def handle_A_def info_of_def dict_get_def del: py_str.simps)
  from C8_read_file[OF handle_A_opened handle_R_facts(1) handle_W_opened handle_R_facts(1),
      of "''tmp/u1/files''" "''img1''" "AsPath ''x.png''" disk_A "Raw [4, 5]" "Raw [9]"
         "snd (write_file handle_A disk_A ''img1'' (Raw [9]))" disk_R
         "[(''data'', Pickled (PDict [(''version'', PInt 2), (''sections'', PDict [])])),
           (''info'', Pickled (PDict [(''version'', PInt 2), (''files'', PDict []),
                                      (''name'', PStr ''NoName'')])),
           (''files/x.png'', Raw [1, 2, 3])]" "AsPath ''x.png''" "Raw [1, 2, 3]" disk_A "''img9''"
         disk_R]
  show ?thesis
    using a wf w r r2 nw px handle_A_opened handle_R_facts(1) handle_W_opened
    by (simp del: py_str.simps)
qed

text \<open>
  The claim C8 as stated fails: an id that is not registered raises KeyError on the
  readable handle \<open>R\<close> and \<open>UnsupportedOperation\<close> on the write-only handle \<open>W\<close>.
\<close>

theorem C8_unregistered_id_is_KeyError:
  "opened handle_R \<and> readable handle_R \<and> \<not> dict_has (files (info handle_R)) ''img9''
   \<and> read_file handle_R disk_R ''img9'' = Inl KeyError
   \<and> read_file handle_R disk_R ''img9'' \<noteq> Inl FileNotFoundError
   \<and> opened handle_W \<and> \<not> dict_has (files (info handle_W)) ''img9''
   \<and> read_file handle_W disk_A ''img9'' = Inl UnsupportedOperation"
  by (simp add: opened_def handle_R_def handle_W_def read_file_def zip_open_def disk_R_def
        archive_old_def info_of_def dict_has_def dict_keys_def dict_get_def)


section \<open>Paths: the sibling of the target\<close>

text \<open>The \<^verbatim>\<open>.old\<close> sibling of a path is never the path itself: its last component is
  the last component of the path followed by \<^verbatim>\<open>.old\<close>.\<close>

lemma split_on_not_Nil: "split_on c s \<noteq> []"
  by (induction s) (auto split: list.splits)

lemma split_on_no_sep: "c \<notin> set s \<Longrightarrow> split_on c s = [s]"
  by (induction s) auto

lemma split_on_parts_no_sep: "w \<in> set (split_on c s) \<Longrightarrow> c \<notin> set w"
  by (induction s arbitrary: w) (auto split: if_splits list.splits)

lemma split_on_append: "split_on c (a @ c # b) = split_on c a @ split_on c b"
proof (induction a)
  case Nil
  then show ?case by simp
next
  case (Cons x a)
  then show ?case
    by (cases "split_on c a") (auto simp: split_on_not_Nil)
qed

lemma split_on_join:
  "ps \<noteq> [] \<Longrightarrow> \<forall>p \<in> set ps. CHR ''/'' \<notin> set p \<Longrightarrow> split_on CHR ''/'' (join_with ''/'' ps) = ps"
proof (induction "''/''" ps rule: join_with.induct)
  case 1
  then show ?case by simp
next
  case (2 w)
  then show ?case by (simp add: split_on_no_sep)
next
  case (3 w v ws)
  have "split_on CHR ''/'' (w @ CHR ''/'' # join_with ''/'' (v # ws))
        = split_on CHR ''/'' w @ split_on CHR ''/'' (join_with ''/'' (v # ws))"
    by (rule split_on_append)
  with 3 show ?case by (simp add: split_on_no_sep)
qed

lemma clean_path_parts: "clean_parts (path_parts s)"
  by (auto simp: clean_parts_def path_parts_def dest: split_on_parts_no_sep)

lemma path_root_cases: "path_root s = [] \<or> path_root s = ''/'' \<or> path_root s = ''//''"
  by (simp add: path_root_def)

lemma join_with_Nil_iff: "clean_parts ps \<Longrightarrow> (join_with ''/'' ps = []) = (ps = [])"
  by (induction "''/''" ps rule: join_with.induct) (auto simp: clean_parts_def)

lemma path_parts_format:
  assumes "clean_parts ps" and "root = [] \<or> root = ''/'' \<or> root = ''//''"
  shows "path_parts (path_format root ps) = ps"
proof (cases "ps = []")
  case True
  with assms(2) show ?thesis
    by (auto simp: path_format_def path_parts_def)
next
  case False
  with assms(1) have ne: "join_with ''/'' ps \<noteq> []" by (simp add: join_with_Nil_iff)
  have sp: "split_on CHR ''/'' (join_with ''/'' ps) = ps"
    using False assms(1) by (intro split_on_join) (auto simp: clean_parts_def)
  have keep: "filter (\<lambda>c. c \<noteq> [] \<and> c \<noteq> ''.'') ps = ps"
    using assms(1) by (auto simp: clean_parts_def intro: filter_True)
  from assms(2) show ?thesis
    using ne sp keep by (auto simp: path_format_def path_parts_def Let_def)
qed

lemma path_parts_Path_of: "path_parts (Path_of s) = path_parts s"
  unfolding Path_of_def by (rule path_parts_format[OF clean_path_parts path_root_cases])

lemma path_name_no_sep: "CHR ''/'' \<notin> set (path_name p)"
proof (cases "path_parts p")
  case Nil
  then show ?thesis by (simp add: path_name_def)
next
  case (Cons a as)
  then have "last (path_parts p) \<in> set (path_parts p)" by simp
  with clean_path_parts[of p] Cons show ?thesis
    by (auto simp: path_name_def clean_parts_def simp del: last.simps)
qed

lemma path_parts_old_name: "path_parts (path_name p @ ''.old'') = [path_name p @ ''.old'']"
  using path_name_no_sep[of p] by (simp add: path_parts_def split_on_no_sep)

lemma path_parts_old_marker:
  "path_parts (old_marker p) = path_parts (path_parent p) @ [path_name p @ ''.old'']"
proof -
  have ns: "\<not> starts_with ''/'' (path_name p @ ''.old'')"
    using path_name_no_sep[of p] by (cases "path_name p") auto
  have cl: "clean_parts (path_parts (path_parent p) @ [path_name p @ ''.old''])"
    using clean_path_parts[of "path_parent p"] path_name_no_sep[of p]
    by (auto simp: clean_parts_def)
  show ?thesis
    using ns path_parts_format[OF cl path_root_cases]
    by (simp add: old_marker_def joinpath_def path_parts_old_name)
qed

lemma path_parts_parent:
  "path_parts (path_parent p) = butlast (path_parts p)"
proof (cases "path_parts p = []")
  case True
  then show ?thesis by (simp add: path_parent_def path_parts_Path_of)
next
  case False
  have "clean_parts (butlast (path_parts p))"
    using clean_path_parts[of p] by (auto simp: clean_parts_def dest: in_set_butlastD)
  with False show ?thesis
    by (simp add: path_parent_def path_parts_format[OF _ path_root_cases])
qed

lemma path_name_last:
  "path_name p = (if path_parts p = [] then [] else last (path_parts p))"
  by (cases "path_parts p") (simp_all add: path_name_def)

lemma old_marker_neq [simp]: "old_marker T \<noteq> T" "T \<noteq> old_marker T"
proof -
  have "path_name (old_marker T) = path_name T @ ''.old''"
    unfolding path_name_last[of "old_marker T"] by (simp add: path_parts_old_marker)
  then show "old_marker T \<noteq> T" by (metis append_self_conv list.distinct(1))
  then show "T \<noteq> old_marker T" by (rule not_sym)
qed

section \<open>save: the states of the filesystem\<close>

lemma now_effect [simp]: "now (effect f w) = f (now w)"
  by (simp add: effect_def)

lemma past_effect [simp]: "past (effect f w) = now w # past w"
  by (simp add: effect_def)

lemma kept_old: "x T = Some old \<Longrightarrow> old_kept old T x"
  by (simp add: old_kept_def)

lemma kept_absent: "x (old_marker T) = Some old \<Longrightarrow> x T = None \<Longrightarrow> old_kept old T x"
  by (simp add: old_kept_def under_construction_def)

lemma kept_partial:
  "x (old_marker T) = Some old \<Longrightarrow> x T = Some (Zip False es) \<Longrightarrow> old_kept old T x"
  by (simp add: old_kept_def under_construction_def)

text \<open>The loop over the resources changes the target only, which stays an unfinished
  container.\<close>

lemma write_resources_inv:
  assumes "write_resources flt h T ids w = (r, w')"
    and "now w T = Some (Zip False es)"
    and "now w (old_marker T) = Some old"
    and "list_all (old_kept old T) (now w # past w)"
  shows "\<exists>es'. now w' T = Some (Zip False (es @ es'))
          \<and> (\<forall>q. q \<noteq> T \<longrightarrow> now w' q = now w q)
          \<and> list_all (old_kept old T) (now w' # past w')"
  using assms
proof (induction ids arbitrary: w es)
  case Nil
  then show ?case by simp
next
  case (Cons k ids)
  show ?case
  proof (cases "dict_get (files (info h)) k")
    case None
    with Cons.prems show ?thesis by auto
  next
    case (Some fl)
    note fl = Some
    show ?thesis
    proof (cases "internal_files_dir h")
      case None
      with Cons.prems fl show ?thesis by auto
    next
      case (Some dir)
      note dir = Some
      show ?thesis
      proof (cases "flt (WriteRes k)")
        case (Some e)
        with Cons.prems fl dir show ?thesis by auto
      next
        case None
        note nofault = None
        show ?thesis
        proof (cases "now w (joinpath dir (py_str fl))")
          case None
          with Cons.prems fl dir nofault show ?thesis by auto
        next
          case (Some b)
          let ?nm = "arcname_of (''files/'' @ py_str fl)"
          let ?w1 = "effect (zip_append T ?nm b) w"
          have step: "write_resources flt h T ids ?w1 = (r, w')"
            using Cons.prems(1) fl dir nofault Some by simp
          have t1: "now ?w1 T = Some (Zip False (es @ [(?nm, b)]))"
            using Cons.prems(2) by (simp add: zip_append_def)
          have oth: "\<forall>q. q \<noteq> T \<longrightarrow> now ?w1 q = now w q"
            using Cons.prems(2) by (simp add: zip_append_def)
          then have o1: "now ?w1 (old_marker T) = Some old"
            using Cons.prems(3) by simp
          have all1: "list_all (old_kept old T) (now ?w1 # past ?w1)"
            using Cons.prems(4) kept_partial[of "now ?w1" T old] o1 t1 by simp
          from Cons.IH[OF step t1 o1 all1] obtain es' where
            es': "now w' T = Some (Zip False ((es @ [(?nm, b)]) @ es'))"
              "\<forall>q. q \<noteq> T \<longrightarrow> now w' q = now ?w1 q"
              "list_all (old_kept old T) (now w' # past w')"
            by blast
          have "now w' T = Some (Zip False (es @ ((?nm, b) # es')))"
            using es'(1) by simp
          moreover have "\<forall>q. q \<noteq> T \<longrightarrow> now w' q = now w q"
            using es'(2) oth by simp
          ultimately show ?thesis using es'(3) by blast
        qed
      qed
    qed
  qed
qed

text \<open>
  The \<^verbatim>\<open>try\<close> block, started with the target absent and the previous archive at the
  sibling. When it raises, the previous archive was kept in every state; when it
  returns, it was kept in every state before the last one, in which the sibling is gone.
\<close>

lemma save_try_inv:
  assumes run: "save_try flt h T (Some (old_marker T)) w = (r, w1)"
    and t0: "now w T = None"
    and o0: "now w (old_marker T) = Some old"
    and all0: "list_all (old_kept old T) (now w # past w)"
  shows "(\<forall>q. q \<noteq> T \<and> q \<noteq> old_marker T \<longrightarrow> now w1 q = now w q)
       \<and> (r \<noteq> None \<longrightarrow> list_all (old_kept old T) (now w1 # past w1)
              \<and> now w1 (old_marker T) = Some old)
       \<and> (r = None \<longrightarrow> list_all (old_kept old T) (past w1) \<and> now w1 (old_marker T) = None)"
proof (cases "flt OpenZip")
  case (Some e)
  with run have "r = Some e" "w1 = w" by (simp_all add: save_try_def)
  with o0 all0 show ?thesis by simp
next
  case None
  note f1 = None
  let ?O = "old_marker T"
  let ?w1 = "effect (zip_create T) w"
  have t1: "now ?w1 T = Some (Zip False [])" by (simp add: zip_create_def)
  have o1: "now ?w1 ?O = Some old" using o0 by (simp add: zip_create_def)
  have q1: "\<forall>q. q \<noteq> T \<longrightarrow> now ?w1 q = now w q" by (simp add: zip_create_def)
  have all1: "list_all (old_kept old T) (now ?w1 # past ?w1)"
    using all0 kept_partial[of "now ?w1" T old] o1 t1 by simp
  show ?thesis
  proof (cases "flt ExportData = None \<and> flt WriteData = None")
    case False
    then obtain e where "flt ExportData = Some e \<or> (flt ExportData = None \<and> flt WriteData = Some e)"
      by (cases "flt ExportData") auto
    then have "save_try flt h T (Some ?O) w = (Some e, ?w1)"
      using f1 by (auto simp: save_try_def)
    with run have "r \<noteq> None" "w1 = ?w1" by auto
    with o1 q1 all1 show ?thesis by simp
  next
    case True
    note f2 = True
    let ?d = "Data_export_data (bdm_data h)"
    let ?w2 = "effect (zip_append T ''data'' ?d) ?w1"
    have t2: "now ?w2 T = Some (Zip False [(''data'', ?d)])"
      by (simp add: zip_append_def zip_create_def)
    have q2: "\<forall>q. q \<noteq> T \<longrightarrow> now ?w2 q = now w q"
      by (simp add: zip_append_def zip_create_def)
    then have o2: "now ?w2 ?O = Some old" using o0 by simp
    have all2: "list_all (old_kept old T) (now ?w2 # past ?w2)"
      using all1 kept_partial[of "now ?w2" T old] o2 t2 by simp
    show ?thesis
    proof (cases "flt ExportInfo = None \<and> flt WriteInfo = None")
      case False
      then obtain e where "flt ExportInfo = Some e \<or> (flt ExportInfo = None \<and> flt WriteInfo = Some e)"
        by (cases "flt ExportInfo") auto
      then have "save_try flt h T (Some ?O) w = (Some e, ?w2)"
        using f1 f2 by (auto simp: save_try_def)
      with run have "r \<noteq> None" "w1 = ?w2" by auto
      with o2 q2 all2 show ?thesis by simp
    next
      case True
      note f3 = True
      let ?i = "Info_export_data (info h)"
      let ?w3 = "effect (zip_append T ''info'' ?i) ?w2"
      have t3: "now ?w3 T = Some (Zip False [(''data'', ?d), (''info'', ?i)])"
        by (simp add: zip_append_def zip_create_def)
      have q3: "\<forall>q. q \<noteq> T \<longrightarrow> now ?w3 q = now w q"
        by (simp add: zip_append_def zip_create_def)
      then have o3: "now ?w3 ?O = Some old" using o0 by simp
      have all3: "list_all (old_kept old T) (now ?w3 # past ?w3)"
        using all2 kept_partial[of "now ?w3" T old] o3 t3 by simp
      obtain r4 w4 where wr: "write_resources flt h T (dict_keys (files (info h))) ?w3 = (r4, w4)"
        by (cases "write_resources flt h T (dict_keys (files (info h))) ?w3")
      from write_resources_inv[OF wr t3 o3 all3] obtain es' where
        t4: "now w4 T = Some (Zip False ([(''data'', ?d), (''info'', ?i)] @ es'))"
        and q4: "\<forall>q. q \<noteq> T \<longrightarrow> now w4 q = now ?w3 q"
        and all4: "list_all (old_kept old T) (now w4 # past w4)"
        by blast
      from q4 q3 have q4': "\<forall>q. q \<noteq> T \<longrightarrow> now w4 q = now w q" by simp
      then have o4: "now w4 ?O = Some old" using o0 by simp
      show ?thesis
      proof (cases "r4 = None \<and> flt RemoveOld = None")
        case False
        then obtain e where "r4 = Some e \<or> (r4 = None \<and> flt RemoveOld = Some e)"
          by (cases r4) auto
        then have "save_try flt h T (Some ?O) w = (Some e, w4)"
          using f1 f2 f3 wr by (auto simp: save_try_def)
        with run have "r \<noteq> None" "w1 = w4" by auto
        with o4 q4' all4 show ?thesis by simp
      next
        case True
        then have "save_try flt h T (Some ?O) w = (None, effect (fs_remove ?O) w4)"
          using f1 f2 f3 wr by (simp add: save_try_def)
        with run have r: "r = None" and w1: "w1 = effect (fs_remove ?O) w4"
          by auto
        have o5: "now w1 ?O = None" using w1 by (simp add: fs_remove_def)
        have q5: "\<forall>q. q \<noteq> T \<and> q \<noteq> ?O \<longrightarrow> now w1 q = now w q"
          using q4' w1 by (simp add: fs_remove_def)
        have all5: "list_all (old_kept old T) (past w1)"
          using all4 w1 by simp
        from r o5 q5 all5 show ?thesis by blast
      qed
    qed
  qed
qed

text \<open>The handler, entered with the previous archive at the sibling: it keeps the
  previous archive in every state, and puts it back at the target when its own removal
  and rename do not fail.\<close>

lemma save_handler_inv:
  assumes run: "save_handler flt T (Some (old_marker T)) err w1 = (r, w')"
    and o1: "now w1 (old_marker T) = Some old"
    and all1: "list_all (old_kept old T) (now w1 # past w1)"
  shows "r \<noteq> None
       \<and> list_all (old_kept old T) (now w' # past w')
       \<and> (\<forall>q. q \<noteq> T \<and> q \<noteq> old_marker T \<longrightarrow> now w' q = now w1 q)
       \<and> (flt HandlerRemove = None \<and> flt HandlerRename = None \<longrightarrow>
            r = Some err \<and> now w' T = Some old \<and> now w' (old_marker T) = None)"
proof (cases "now w1 T \<noteq> None \<and> flt HandlerRemove \<noteq> None")
  case True
  then obtain e where "flt HandlerRemove = Some e" by auto
  with True have "save_handler flt T (Some (old_marker T)) err w1 = (Some e, w1)"
    by (simp add: save_handler_def)
  with run have "r = Some e" "w' = w1" by auto
  with all1 True show ?thesis by auto
next
  case False
  let ?O = "old_marker T"
  let ?w2 = "if now w1 T \<noteq> None then effect (fs_remove T) w1 else w1"
  have t2: "now ?w2 T = None" by (simp add: fs_remove_def)
  have o2: "now ?w2 ?O = Some old" using o1 by (simp add: fs_remove_def)
  have q2: "\<forall>q. q \<noteq> T \<and> q \<noteq> ?O \<longrightarrow> now ?w2 q = now w1 q" by (simp add: fs_remove_def)
  have all2: "list_all (old_kept old T) (now ?w2 # past ?w2)"
    using all1 kept_absent[of "now ?w2" T old] o2 t2 by (simp split: if_splits)
  have unfold: "save_handler flt T (Some ?O) err w1 =
      (case flt HandlerRename of
         Some e \<Rightarrow> (Some e, ?w2)
       | None \<Rightarrow> (Some err, effect (fs_rename ?O T) ?w2))"
    using False o2 by (auto simp: save_handler_def Let_def split: option.splits)
  show ?thesis
  proof (cases "flt HandlerRename")
    case (Some e)
    with run unfold have "r = Some e" "w' = ?w2" by auto
    with all2 q2 Some show ?thesis by simp
  next
    case None
    with run unfold have r: "r = Some err" and w': "w' = effect (fs_rename ?O T) ?w2" by auto
    have t': "now w' T = Some old" using o2 w' by (simp add: fs_rename_def)
    have o': "now w' ?O = None" using w' by (simp add: fs_rename_def)
    have q': "\<forall>q. q \<noteq> T \<and> q \<noteq> ?O \<longrightarrow> now w' q = now w1 q"
      using q2 w' by (simp add: fs_rename_def)
    have all': "list_all (old_kept old T) (now w' # past w')"
      using all2 kept_old[of "now w'" T old] t' w' by simp
    from r t' o' q' all' show ?thesis by simp
  qed
qed

text \<open>
  A call of \<^verbatim>\<open>save\<close> over an existing file, for a target given as a \<^verbatim>\<open>Path\<close> or left to
  the default. \<open>r1\<close> and \<open>w1\<close> are the outcome of the \<^verbatim>\<open>try\<close> block.
\<close>

lemma save_w_inv:
  assumes wr: "writable h"
    and T: "save_target h (map_option AsPath po) = T"
    and t0: "now w T = Some old"
    and all0: "list_all (old_kept old T) (now w # past w)"
    and run: "save_w flt h (map_option AsPath po) w = (r, w')"
    and tr: "save_try flt h T (Some (old_marker T)) (effect (fs_rename T (old_marker T)) w) = (r1, w1)"
  shows "(\<forall>q. q \<noteq> T \<and> q \<noteq> old_marker T \<longrightarrow> now w' q = now w q)
       \<and> (r \<noteq> None \<longrightarrow> list_all (old_kept old T) (now w' # past w'))
       \<and> (r = None \<longrightarrow> list_all (old_kept old T) (past w') \<and> now w' (old_marker T) = None)
       \<and> (flt RenameAside = None \<and> r1 = None \<longrightarrow> r = None)
       \<and> (flt RenameAside = None \<and> r1 \<noteq> None \<and> \<not> is_Exception (the r1) \<longrightarrow>
            r = r1 \<and> w' = w1 \<and> now w' (old_marker T) = Some old)
       \<and> (flt RenameAside = None \<and> r1 \<noteq> None \<and> is_Exception (the r1)
            \<and> flt HandlerRemove = None \<and> flt HandlerRename = None \<longrightarrow>
            r = r1 \<and> now w' T = Some old \<and> now w' (old_marker T) = None)"
proof (cases "flt RenameAside")
  case (Some e)
  have tgt: "(case map_option AsPath po of None \<Rightarrow> path h | Some q \<Rightarrow> ensure_Path q) = T"
    using T by (simp add: save_target_def)
  have "save_w flt h (map_option AsPath po) w = (Some e, w)"
    using wr t0 tgt Some by (cases po) (simp_all add: save_w_def Let_def)
  with run have "r = Some e" "w' = w" by auto
  with all0 Some show ?thesis by simp
next
  case None
  let ?O = "old_marker T"
  let ?w0 = "effect (fs_rename T ?O) w"
  have tgt: "(case map_option AsPath po of None \<Rightarrow> path h | Some q \<Rightarrow> ensure_Path q) = T"
    using T by (simp add: save_target_def)
  have t0': "now ?w0 T = None" by (simp add: fs_rename_def)
  have o0': "now ?w0 ?O = Some old" using t0 by (simp add: fs_rename_def)
  have q0': "\<forall>q. q \<noteq> T \<and> q \<noteq> ?O \<longrightarrow> now ?w0 q = now w q" by (simp add: fs_rename_def)
  have all0': "list_all (old_kept old T) (now ?w0 # past ?w0)"
    using all0 kept_absent[of "now ?w0" T old] o0' t0' by simp
  from save_try_inv[OF tr t0' o0' all0'] have
    q1: "\<forall>q. q \<noteq> T \<and> q \<noteq> ?O \<longrightarrow> now w1 q = now ?w0 q"
    and f1: "r1 \<noteq> None \<longrightarrow> list_all (old_kept old T) (now w1 # past w1) \<and> now w1 ?O = Some old"
    and s1: "r1 = None \<longrightarrow> list_all (old_kept old T) (past w1) \<and> now w1 ?O = None"
    by blast+
  have unfold: "save_w flt h (map_option AsPath po) w =
      (case r1 of
         None \<Rightarrow> (None, w1)
       | Some err \<Rightarrow>
           if is_Exception err then save_handler flt T (Some ?O) err w1 else (Some err, w1))"
    using wr t0 tr tgt None
    by (cases po) (simp_all add: save_w_def Let_def split: option.splits)
  show ?thesis
  proof (cases r1)
    case None
    with run unfold have "r = None" "w' = w1" by auto
    with s1 q1 q0' None show ?thesis by simp
  next
    case (Some err)
    with f1 have all1: "list_all (old_kept old T) (now w1 # past w1)"
      and o1: "now w1 ?O = Some old" by simp_all
    show ?thesis
    proof (cases "is_Exception err")
      case False
      with run unfold Some have "r = Some err" "w' = w1" by auto
      with all1 o1 q1 q0' Some False show ?thesis by simp
    next
      case True
      with run unfold Some have h: "save_handler flt T (Some ?O) err w1 = (r, w')" by simp
      from save_handler_inv[OF h o1 all1] have
        rn: "r \<noteq> None"
        and all': "list_all (old_kept old T) (now w' # past w')"
        and q': "\<forall>q. q \<noteq> T \<and> q \<noteq> ?O \<longrightarrow> now w' q = now w1 q"
        and ok: "flt HandlerRemove = None \<and> flt HandlerRename = None \<longrightarrow>
                   r = Some err \<and> now w' T = Some old \<and> now w' ?O = None"
        by blast+
      from rn all' q' ok q1 q0' Some True show ?thesis by auto
    qed
  qed
qed

text \<open>The target path and its \<^verbatim>\<open>.old\<close> sibling through a \<^verbatim>\<open>save\<close> of handle \<open>A\<close>: with
  the staged resource in place, with the staged resource missing, with an interrupt
  while the index is written, and with a handler that cannot move the old file back.\<close>

lemma paths_A:
  "old_marker ''a.bdm'' = ''a.bdm.old''"
  "Path_of ''x.png'' = ''x.png''"
  "joinpath ''tmp/u1/files'' ''x.png'' = ''tmp/u1/files/x.png''"
  "arcname_of ''files/x.png'' = ''files/x.png''"
  by code_simp+

lemmas save_eval = save_observed_def observed_def save_def save_w_def save_try_def
  save_handler_def write_phase_def no_faults_def effect_def zip_create_def zip_append_def
  fs_rename_def fs_remove_def dict_keys_def dict_get_def Let_def paths_A

lemma film_A:
  "map (\<lambda>x. (x ''a.bdm'', x ''a.bdm.old'')) (save_observed no_faults handle_A None disk_A) =
     [(Some archive_old, None), (None, Some archive_old), (Some (Zip False []), Some archive_old),
      (Some (Zip False [(''data'', Data_export_data (data_of owner_A))]), Some archive_old),
      (Some (Zip False [(''data'', Data_export_data (data_of owner_A)),
                        (''info'', Info_export_data (info_of owner_A))]), Some archive_old),
      (Some (Zip False [(''data'', Data_export_data (data_of owner_A)),
                        (''info'', Info_export_data (info_of owner_A)),
                        (''files/x.png'', Raw [4, 5])]), Some archive_old),
      (Some (Zip False [(''data'', Data_export_data (data_of owner_A)),
                        (''info'', Info_export_data (info_of owner_A)),
                        (''files/x.png'', Raw [4, 5])]), None)]"
  by (simp add: save_eval handle_A_def disk_A_def info_of_def)

lemma save_A:
  "fst (save no_faults handle_A None disk_A) = None"
  "fst (write_phase no_faults handle_A ''a.bdm'' disk_A) = None"
  "snd (save no_faults handle_A None disk_A) ''a.bdm''
       = Some (Zip False [(''data'', Data_export_data (data_of owner_A)),
                          (''info'', Info_export_data (info_of owner_A)),
                          (''files/x.png'', Raw [4, 5])])"
  "snd (save no_faults handle_A None disk_A) ''a.bdm.old'' = None"
  by (simp_all add: save_eval handle_A_def disk_A_def info_of_def)

text \<open>Once the writer of that successful \<^verbatim>\<open>save\<close> has been reclaimed, the target is a
  finished container.\<close>

lemma save_A_reclaimed:
  "writer_reclaimed no_faults ''a.bdm'' (snd (save no_faults handle_A None disk_A)) ''a.bdm''
     = Some (Zip True [(''data'', Data_export_data (data_of owner_A)),
                       (''info'', Info_export_data (info_of owner_A)),
                       (''files/x.png'', Raw [4, 5])])"
proof -
  have "no_faults CloseZip = None" by (simp add: no_faults_def)
  then show ?thesis by (simp add: writer_reclaimed_def zip_close_def save_A(3))
qed

lemma film_A_unstaged:
  "map (\<lambda>x. (x ''a.bdm'', x ''a.bdm.old''))
       (save_observed no_faults handle_A None disk_A_unstaged) =
     [(Some archive_old, None), (None, Some archive_old), (Some (Zip False []), Some archive_old),
      (Some (Zip False [(''data'', Data_export_data (data_of owner_A))]), Some archive_old),
      (Some (Zip False [(''data'', Data_export_data (data_of owner_A)),
                        (''info'', Info_export_data (info_of owner_A))]), Some archive_old),
      (None, Some archive_old), (Some archive_old, None)]"
  by (simp add: save_eval handle_A_def disk_A_unstaged_def info_of_def)

lemma save_A_unstaged:
  "fst (save no_faults handle_A None disk_A_unstaged) = Some FileNotFoundError"
  "fst (write_phase no_faults handle_A ''a.bdm'' disk_A_unstaged) = Some FileNotFoundError"
  "snd (save no_faults handle_A None disk_A_unstaged) ''a.bdm'' = Some archive_old"
  "snd (save no_faults handle_A None disk_A_unstaged) ''a.bdm.old'' = None"
  by (simp_all add: save_eval handle_A_def disk_A_unstaged_def info_of_def)

lemma save_A_interrupt:
  "fst (write_phase flt_interrupt handle_A ''a.bdm'' disk_A) = Some KeyboardInterrupt"
  "fst (save flt_interrupt handle_A None disk_A) = Some KeyboardInterrupt"
  "snd (save flt_interrupt handle_A None disk_A) ''a.bdm''
     = Some (Zip False [(''data'', Data_export_data (data_of owner_A))])"
  "snd (save flt_interrupt handle_A None disk_A) ''a.bdm.old'' = Some archive_old"
  by (simp_all add: save_eval flt_interrupt_def handle_A_def disk_A_def info_of_def)

lemma save_A_handler_stuck:
  "fst (write_phase flt_handler_stuck handle_A ''a.bdm'' disk_A) = Some OSError"
  "fst (save flt_handler_stuck handle_A None disk_A) = Some OSError"
  "snd (save flt_handler_stuck handle_A None disk_A) ''a.bdm'' = None"
  "snd (save flt_handler_stuck handle_A None disk_A) ''a.bdm.old'' = Some archive_old"
  by (simp_all add: save_eval flt_handler_stuck_def handle_A_def disk_A_def info_of_def)

lemma handle_A_target:
  "writable handle_A" "save_target handle_A (map_option AsPath None) = ''a.bdm''"
  "disk_A ''a.bdm'' = Some archive_old" "disk_A_unstaged ''a.bdm'' = Some archive_old"
  by (simp_all add: handle_A_def save_target_def disk_A_def disk_A_unstaged_def)

text \<open>
  Claim C1, amended. During a \<^verbatim>\<open>save\<close> over an existing archive, at every observable
  instant until \<^verbatim>\<open>save\<close> deletes the \<^verbatim>\<open>.old\<close> marker, the target path holds the previous
  archive, or it does not exist or holds the unfinished new container while the previous
  archive lies intact at the \<^verbatim>\<open>.old\<close> sibling. This holds for every pattern of failures:
  in a call that raises for all its states, in a call that returns for all states but
  the last, the one in which the marker has been deleted.
\<close>

theorem C1_save_observable_states:
  assumes "writable h" and "save_target h (map_option AsPath po) = T" and "s T = Some old"
  shows "(fst (save flt h (map_option AsPath po) s) \<noteq> None \<longrightarrow>
            list_all (old_kept old T) (save_observed flt h (map_option AsPath po) s))
       \<and> (fst (save flt h (map_option AsPath po) s) = None \<longrightarrow>
            list_all (old_kept old T) (butlast (save_observed flt h (map_option AsPath po) s))
            \<and> last (save_observed flt h (map_option AsPath po) s) (old_marker T) = None)"
proof -
  let ?w = "\<lparr>now = s, past = []\<rparr>"
  obtain r w' where run: "save_w flt h (map_option AsPath po) ?w = (r, w')"
    by (cases "save_w flt h (map_option AsPath po) ?w")
  obtain r1 w1 where tr: "save_try flt h T (Some (old_marker T))
                            (effect (fs_rename T (old_marker T)) ?w) = (r1, w1)"
    by (cases "save_try flt h T (Some (old_marker T)) (effect (fs_rename T (old_marker T)) ?w)")
  have sv: "fst (save flt h (map_option AsPath po) s) = r"
    using run by (simp add: save_def)
  have ob: "save_observed flt h (map_option AsPath po) s = rev (past w') @ [now w']"
    using run by (simp add: save_observed_def observed_def)
  have t0: "now ?w T = Some old" using assms(3) by simp
  have all0: "list_all (old_kept old T) (now ?w # past ?w)"
    using assms(3) by (simp add: old_kept_def)
  from save_w_inv[OF assms(1,2) t0 all0 run tr] have
    f: "r \<noteq> None \<longrightarrow> list_all (old_kept old T) (now w' # past w')"
    and k: "r = None \<longrightarrow> list_all (old_kept old T) (past w') \<and> now w' (old_marker T) = None"
    by blast+
  show ?thesis unfolding sv ob using f k by (auto simp: list_all_iff)
qed

theorem C1_save_observable_states_witness:
  "writable handle_A \<and> save_target handle_A None = ''a.bdm''
   \<and> old_marker ''a.bdm'' = ''a.bdm.old''
   \<and> disk_A ''a.bdm'' = Some archive_old
   \<and> fst (save no_faults handle_A None disk_A) = None
   \<and> list_all (old_kept archive_old ''a.bdm'')
        (butlast (save_observed no_faults handle_A None disk_A))
   \<and> last (save_observed no_faults handle_A None disk_A) ''a.bdm.old'' = None
   \<and> disk_A_unstaged ''a.bdm'' = Some archive_old
   \<and> fst (save no_faults handle_A None disk_A_unstaged) = Some FileNotFoundError
   \<and> list_all (old_kept archive_old ''a.bdm'')
        (save_observed no_faults handle_A None disk_A_unstaged)"
proof -
  note ok = C1_save_observable_states[where h = handle_A and po = None and T = "''a.bdm''"
      and s = disk_A and old = archive_old and flt = no_faults]
  note ko = C1_save_observable_states[where h = handle_A and po = None and T = "''a.bdm''"
      and s = disk_A_unstaged and old = archive_old and flt = no_faults]
  from ok ko show ?thesis
    using handle_A_target save_A save_A_unstaged paths_A(1) by simp
qed

text \<open>
  The claim C1 as stated fails: the third state of this \<^verbatim>\<open>save\<close> has at the target
  path an empty container without central directory, which is neither the previous
  archive nor a valid archive (the previous archive lies at the \<^verbatim>\<open>.old\<close> sibling).
\<close>

theorem C1_partial_container_observed:
  "writable handle_A \<and> disk_A ''a.bdm'' = Some archive_old \<and> valid_archive archive_old
   \<and> (save_observed no_faults handle_A None disk_A ! 2) ''a.bdm'' = Some (Zip False [])
   \<and> (save_observed no_faults handle_A None disk_A ! 2) ''a.bdm.old'' = Some archive_old
   \<and> \<not> valid_archive (Zip False []) \<and> Zip False [] \<noteq> archive_old
   \<and> \<not> target_consistent archive_old ''a.bdm'' (save_observed no_faults handle_A None disk_A ! 2)
   \<and> \<not> list_all (target_consistent archive_old ''a.bdm'')
          (save_observed no_faults handle_A None disk_A)"
proof -
  let ?obs = "save_observed no_faults handle_A None disk_A"
  have len: "length ?obs = 7"
    using arg_cong[OF film_A, of length] by simp
  have "(map (\<lambda>x. (x ''a.bdm'', x ''a.bdm.old'')) ?obs) ! 2 = (Some (Zip False []), Some archive_old)"
    unfolding film_A by simp
  then have third: "(?obs ! 2) ''a.bdm'' = Some (Zip False [])"
    "(?obs ! 2) ''a.bdm.old'' = Some archive_old"
    using len by simp_all
  have v: "valid_archive archive_old" "\<not> valid_archive (Zip False [])" "Zip False [] \<noteq> archive_old"
    by (simp_all add: valid_archive_def archive_old_def)
  have bad: "\<not> target_consistent archive_old ''a.bdm'' (?obs ! 2)"
    using third v by (simp add: target_consistent_def)
  have "?obs ! 2 \<in> set ?obs" using len by simp
  with bad have "\<not> list_all (target_consistent archive_old ''a.bdm'') ?obs"
    by (auto simp: list_all_iff)
  with third v bad handle_A_target show ?thesis by simp
qed

text \<open>
  Claim C2, amended. A \<^verbatim>\<open>save\<close> over an existing file, whose rename of the old file
  and whose handler do not fail: when a statement of the write phase raises an error
  that is an \<^verbatim>\<open>Exception\<close>, \<^verbatim>\<open>save\<close> raises that same error and leaves the target path
  with the bytes it had before, no \<^verbatim>\<open>.old\<close> sibling, and every other path as it was;
  when the write phase raises an error that is no \<^verbatim>\<open>Exception\<close>, \<^verbatim>\<open>save\<close> raises it with
  the filesystem as the write phase left it, the previous archive at the \<^verbatim>\<open>.old\<close>
  sibling; when the write phase succeeds, \<^verbatim>\<open>save\<close> returns and no \<^verbatim>\<open>.old\<close> sibling is
  left.
\<close>

theorem C2_save_rollback:
  assumes "writable h" and "save_target h (map_option AsPath po) = T" and "s T = Some old"
    and "flt RenameAside = None" and "flt HandlerRemove = None" and "flt HandlerRename = None"
  shows "(fst (write_phase flt h T s) = Some e \<and> is_Exception e \<longrightarrow>
            fst (save flt h (map_option AsPath po) s) = Some e
            \<and> snd (save flt h (map_option AsPath po) s) T = Some old
            \<and> snd (save flt h (map_option AsPath po) s) (old_marker T) = None
            \<and> (\<forall>q. q \<noteq> old_marker T \<longrightarrow> snd (save flt h (map_option AsPath po) s) q = s q))
       \<and> (fst (write_phase flt h T s) = Some e \<and> \<not> is_Exception e \<longrightarrow>
            save flt h (map_option AsPath po) s = write_phase flt h T s
            \<and> snd (save flt h (map_option AsPath po) s) (old_marker T) = Some old)
       \<and> (fst (write_phase flt h T s) = None \<longrightarrow>
            fst (save flt h (map_option AsPath po) s) = None
            \<and> snd (save flt h (map_option AsPath po) s) (old_marker T) = None)"
proof -
  let ?w = "\<lparr>now = s, past = []\<rparr>"
  obtain r w' where run: "save_w flt h (map_option AsPath po) ?w = (r, w')"
    by (cases "save_w flt h (map_option AsPath po) ?w")
  obtain r1 w1 where tr: "save_try flt h T (Some (old_marker T))
                            (effect (fs_rename T (old_marker T)) ?w) = (r1, w1)"
    by (cases "save_try flt h T (Some (old_marker T)) (effect (fs_rename T (old_marker T)) ?w)")
  have sv: "save flt h (map_option AsPath po) s = (r, now w')"
    using run by (simp add: save_def)
  have wp: "write_phase flt h T s = (r1, now w1)"
    using tr by (simp add: write_phase_def)
  have t0: "now ?w T = Some old" using assms(3) by simp
  have all0: "list_all (old_kept old T) (now ?w # past ?w)"
    using assms(3) by (simp add: old_kept_def)
  note inv = save_w_inv[OF assms(1,2) t0 all0 run tr]
  have
    q: "\<forall>q. q \<noteq> T \<and> q \<noteq> old_marker T \<longrightarrow> now w' q = s q"
    and k: "r = None \<longrightarrow> now w' (old_marker T) = None"
    and a: "r1 = None \<longrightarrow> r = None"
    and b: "r1 \<noteq> None \<and> \<not> is_Exception (the r1) \<longrightarrow>
              r = r1 \<and> w' = w1 \<and> now w' (old_marker T) = Some old"
    and c: "r1 \<noteq> None \<and> is_Exception (the r1) \<longrightarrow>
              r = r1 \<and> now w' T = Some old \<and> now w' (old_marker T) = None"
    using inv assms(4,5,6) by auto
  have 1: "r1 = Some e \<and> is_Exception e \<longrightarrow>
             r = Some e \<and> now w' T = Some old \<and> now w' (old_marker T) = None
             \<and> (\<forall>q. q \<noteq> old_marker T \<longrightarrow> now w' q = s q)"
    using c q assms(3) by (metis option.sel option.distinct(1))
  have 2: "r1 = Some e \<and> \<not> is_Exception e \<longrightarrow>
             (r, now w') = (r1, now w1) \<and> now w' (old_marker T) = Some old"
    using b by auto
  have 3: "r1 = None \<longrightarrow> r = None \<and> now w' (old_marker T) = None"
    using a k by simp
  from 1 2 3 show ?thesis unfolding sv wp fst_conv snd_conv by blast
qed

theorem C2_save_rollback_witness:
  "writable handle_A \<and> save_target handle_A None = ''a.bdm''
   \<and> old_marker ''a.bdm'' = ''a.bdm.old''
   \<and> no_faults RenameAside = None \<and> no_faults HandlerRemove = None
   \<and> no_faults HandlerRename = None
   \<and> disk_A_unstaged ''a.bdm'' = Some archive_old
   \<and> fst (write_phase no_faults handle_A ''a.bdm'' disk_A_unstaged) = Some FileNotFoundError
   \<and> is_Exception FileNotFoundError
   \<and> fst (save no_faults handle_A None disk_A_unstaged) = Some FileNotFoundError
   \<and> snd (save no_faults handle_A None disk_A_unstaged) ''a.bdm'' = Some archive_old
   \<and> snd (save no_faults handle_A None disk_A_unstaged) ''a.bdm.old'' = None
   \<and> flt_interrupt RenameAside = None \<and> flt_interrupt HandlerRemove = None
   \<and> flt_interrupt HandlerRename = None
   \<and> disk_A ''a.bdm'' = Some archive_old
   \<and> fst (write_phase flt_interrupt handle_A ''a.bdm'' disk_A) = Some KeyboardInterrupt
   \<and> \<not> is_Exception KeyboardInterrupt
   \<and> save flt_interrupt handle_A None disk_A = write_phase flt_interrupt handle_A ''a.bdm'' disk_A
   \<and> snd (save flt_interrupt handle_A None disk_A) ''a.bdm.old'' = Some archive_old
   \<and> fst (write_phase no_faults handle_A ''a.bdm'' disk_A) = None
   \<and> fst (save no_faults handle_A None disk_A) = None
   \<and> snd (save no_faults handle_A None disk_A) ''a.bdm.old'' = None"
proof -
  have nf: "no_faults RenameAside = None" "no_faults HandlerRemove = None"
    "no_faults HandlerRename = None" "flt_interrupt RenameAside = None"
    "flt_interrupt HandlerRemove = None" "flt_interrupt HandlerRename = None"
    by (simp_all add: no_faults_def flt_interrupt_def)
  note ko = C2_save_rollback[where h = handle_A and po = None and T = "''a.bdm''"
      and s = disk_A_unstaged and old = archive_old and flt = no_faults
      and e = FileNotFoundError]
  note ki = C2_save_rollback[where h = handle_A and po = None and T = "''a.bdm''"
      and s = disk_A and old = archive_old and flt = flt_interrupt and e = KeyboardInterrupt]
  note ok = C2_save_rollback[where h = handle_A and po = None and T = "''a.bdm''"
      and s = disk_A and old = archive_old and flt = no_faults and e = OSError]
  from ko ki ok show ?thesis
    using nf handle_A_target save_A save_A_unstaged save_A_interrupt paths_A(1) by simp
qed

text \<open>
  The claim C2 as stated fails. An interrupt from the keyboard while the index is
  written is no \<^verbatim>\<open>Exception\<close>: the handler does not run, \<^verbatim>\<open>save\<close> raises the interrupt
  and leaves the partially written target and the \<^verbatim>\<open>.old\<close> file. And when the write
  phase raises an \<^verbatim>\<open>Exception\<close> but the rename of the handler is refused, \<^verbatim>\<open>save\<close>
  raises the error of the rename and leaves no target, the previous archive still at
  the \<^verbatim>\<open>.old\<close> sibling.
\<close>

theorem C2_interrupt_leaves_partial_target:
  "writable handle_A \<and> disk_A ''a.bdm'' = Some archive_old
   \<and> fst (write_phase flt_interrupt handle_A ''a.bdm'' disk_A) = Some KeyboardInterrupt
   \<and> fst (save flt_interrupt handle_A None disk_A) = Some KeyboardInterrupt
   \<and> snd (save flt_interrupt handle_A None disk_A) ''a.bdm''
       = Some (Zip False [(''data'', Data_export_data (data_of owner_A))])
   \<and> snd (save flt_interrupt handle_A None disk_A) ''a.bdm'' \<noteq> Some archive_old
   \<and> snd (save flt_interrupt handle_A None disk_A) ''a.bdm.old'' = Some archive_old
   \<and> fst (write_phase flt_handler_stuck handle_A ''a.bdm'' disk_A) = Some OSError
   \<and> fst (save flt_handler_stuck handle_A None disk_A) = Some OSError
   \<and> snd (save flt_handler_stuck handle_A None disk_A) ''a.bdm'' = None
   \<and> snd (save flt_handler_stuck handle_A None disk_A) ''a.bdm.old'' = Some archive_old"
  using handle_A_target save_A_interrupt save_A_handler_stuck
  by (simp add: archive_old_def)

end
